theory Spec2Isabelle
  imports Complex_Main "HOL-Library.Multiset"
begin

text \<open>
  A shallow embedding of the conversational state, the broadcast job, the support
  bridge, the balance payments and the load watchdog of the VPN storefront bot
  (\<open>internal/handlers\<close>, \<open>internal/service\<close>, \<open>internal/database\<close>), followed by
  the properties proved of them.  The definitions come first, in the order of the
  source files; the theorems follow, one section for each property.
\<close>

section \<open>Common conventions\<close>

text \<open>
  Instants (Go \<open>time.Time\<close>) are integers counting nanoseconds on one monotone clock;
  every call of \<open>time.Now()\<close> in the source is a parameter of the model.  Durations
  (\<open>time.Duration\<close>, an \<open>int64\<close> of nanoseconds) are integers whose arithmetic wraps
  at 64 bits where the source multiplies them.  Money (\<open>float64\<close> in Go,
  \<open>DECIMAL(10,2)\<close> in the store) is a rational number: the arithmetic of the model is
  exact, rounding is not modelled.  Telegram identifiers (\<open>int64\<close>) are integers.
\<close>

type_synonym instant = int
type_synonym duration = int

definition wrap64 :: "int \<Rightarrow> int" where
  "wrap64 x = (x + 2 ^ 63) mod 2 ^ 64 - 2 ^ 63"

definition Hour :: duration where
  "Hour = 3600000000000"

definition zeroTime :: instant where
  \<comment> \<open>the zero \<open>time.Time{}\<close>: 1 January of year 1, in nanoseconds before the Unix epoch\<close>
  "zeroTime = - 62135596800 * 1000000000"

section \<open>Flash sale (\<open>flashSaleState\<close>)\<close>

record flashSaleState =
  discountPercent :: int
  endTime :: instant

text \<open>\<open>Set\<close>: \<open>f.endTime = time.Now().Add(time.Duration(hours) * time.Hour)\<close>.\<close>

definition Set_sale :: "flashSaleState \<Rightarrow> int \<Rightarrow> int \<Rightarrow> instant \<Rightarrow> flashSaleState" where
  "Set_sale f percent hours now =
     f\<lparr>discountPercent := percent, endTime := now + wrap64 (hours * Hour)\<rparr>"

definition Clear_sale :: "flashSaleState \<Rightarrow> flashSaleState" where
  "Clear_sale f = f\<lparr>discountPercent := 0, endTime := zeroTime\<rparr>"

definition IsActive :: "flashSaleState \<Rightarrow> instant \<Rightarrow> bool" where
  "IsActive f now = (discountPercent f > 0 \<and> now < endTime f)"

definition GetDiscount :: "flashSaleState \<Rightarrow> instant \<Rightarrow> int" where
  "GetDiscount f now = (if now < endTime f then discountPercent f else 0)"

definition ApplyDiscount :: "flashSaleState \<Rightarrow> instant \<Rightarrow> rat \<Rightarrow> rat" where
  "ApplyDiscount f now originalPrice =
     (let discount = GetDiscount f now in
      if discount \<le> 0 then originalPrice
      else originalPrice * of_int (100 - discount) / 100)"

section \<open>Broadcast (\<open>broadcastState\<close> and its handlers)\<close>

text \<open>
  The part of a \<open>tele.Message\<close> the handlers read.  A file is named by its identifier;
  \<open>ReplyTo\<close> nests a message, \<open>OriginalSender\<close> is the forwarded message's sender.
\<close>

datatype Message = Message
  (Text: string) (Caption: string)
  (Photo: "string option") (Document: "string option") (Video: "string option")
  (Voice: "string option") (Sticker: "string option")
  (OriginalSender: "int option") (ReplyTo: "Message option")

record broadcastState =
  isActive :: bool
  waitingMsg :: bool
  waitingConfirm :: bool
  adminID :: int
  message :: "Message option"

definition broadcast_init :: broadcastState where
  "broadcast_init = \<lparr>isActive = False, waitingMsg = False, waitingConfirm = False,
     adminID = 0, message = None\<rparr>"

text \<open>What a handler answers to the chat it was called from.\<close>

datatype Reply =
    AlreadyRunning        \<comment> \<open>"Rassylka uzhe vypolnyaetsya. Dozhdites zaversheniya."\<close>
  | PromptForMessage
  | BroadcastCancelled
  | AskConfirm nat
  | NoMessageToSend       \<comment> \<open>"Net soobshcheniya dlya rassylki."\<close>
  | UserListError
  | BroadcastStarted nat
  | NoReply

definition HandleAdminBroadcast :: "broadcastState \<Rightarrow> int \<Rightarrow> broadcastState \<times> Reply" where
  "HandleAdminBroadcast b sender =
     (if isActive b then (b, AlreadyRunning)
      else (b\<lparr>waitingMsg := True, waitingConfirm := False, adminID := sender, message := None\<rparr>,
            PromptForMessage))"

definition HandleCancelBroadcast :: "broadcastState \<Rightarrow> broadcastState \<times> Reply" where
  "HandleCancelBroadcast b =
     (b\<lparr>waitingMsg := False, waitingConfirm := False, adminID := 0, message := None\<rparr>,
      BroadcastCancelled)"

text \<open>
  \<open>HandleBroadcastMessage\<close> has two critical sections: the guarded capture of the
  message, and, when the recipient count cannot be fetched, the reset of
  \<open>waitingConfirm\<close>.
\<close>

definition BroadcastMessage_capture :: "broadcastState \<Rightarrow> int \<Rightarrow> Message \<Rightarrow> broadcastState option" where
  "BroadcastMessage_capture b sender m =
     (if \<not> waitingMsg b \<or> adminID b \<noteq> sender then None
      else Some (b\<lparr>waitingMsg := False, waitingConfirm := True, message := Some m\<rparr>))"

definition BroadcastMessage_failed :: "broadcastState \<Rightarrow> broadcastState" where
  "BroadcastMessage_failed b = b\<lparr>waitingConfirm := False\<rparr>"

definition HandleBroadcastMessage ::
  "broadcastState \<Rightarrow> int \<Rightarrow> Message \<Rightarrow> int list option \<Rightarrow> broadcastState \<times> Reply" where
  "HandleBroadcastMessage b sender m userIDs =
     (case BroadcastMessage_capture b sender m of
        None \<Rightarrow> (b, NoReply)
      | Some b1 \<Rightarrow>
          (case userIDs of
             None \<Rightarrow> (BroadcastMessage_failed b1, UserListError)
           | Some ids \<Rightarrow> (b1, AskConfirm (length ids))))"

text \<open>
  \<open>HandleConfirmBroadcast\<close>: the guard and the launch mark are one critical section;
  a failure to list the recipients clears the mark again and aborts before any send.
\<close>

definition ConfirmBroadcast_guard :: "broadcastState \<Rightarrow> int \<Rightarrow> (broadcastState \<times> Message) option" where
  "ConfirmBroadcast_guard b sender =
     (if \<not> waitingConfirm b \<or> adminID b \<noteq> sender \<or> message b = None then None
      else Some (b\<lparr>waitingConfirm := False, isActive := True\<rparr>, the (message b)))"

definition ConfirmBroadcast_abort :: "broadcastState \<Rightarrow> broadcastState" where
  "ConfirmBroadcast_abort b = b\<lparr>isActive := False\<rparr>"

text \<open>What the fan-out sends, and the job a confirmed launch hands to its goroutine.\<close>

datatype Sendable =
    SendPhoto string string
  | SendDocument string string
  | SendVideo string string
  | SendText string

definition payload_of :: "Message \<Rightarrow> Sendable" where
  "payload_of msg =
     (case Photo msg of Some f \<Rightarrow> SendPhoto f (Caption msg)
      | None \<Rightarrow>
     (case Document msg of Some f \<Rightarrow> SendDocument f (Caption msg)
      | None \<Rightarrow>
     (case Video msg of Some f \<Rightarrow> SendVideo f (Caption msg)
      | None \<Rightarrow> SendText (Text msg))))"

record BroadcastJob =
  job_msg :: Message
  job_userIDs :: "int list"
  job_adminID :: int

definition HandleConfirmBroadcast ::
  "broadcastState \<Rightarrow> int \<Rightarrow> int list option \<Rightarrow> broadcastState \<times> Reply \<times> BroadcastJob option" where
  "HandleConfirmBroadcast b sender userIDs =
     (case ConfirmBroadcast_guard b sender of
        None \<Rightarrow> (b, NoMessageToSend, None)
      | Some (b1, msg) \<Rightarrow>
          (case userIDs of
             None \<Rightarrow> (ConfirmBroadcast_abort b1, UserListError, None)
           | Some ids \<Rightarrow>
               (b1, BroadcastStarted (length ids),
                Some \<lparr>job_msg = msg, job_userIDs = ids, job_adminID = sender\<rparr>)))"

text \<open>
  The events of the fan-out, in the order the goroutine produces them.  The transport
  is a parameter \<open>deliver\<close>: for the position in the snapshot and the recipient it says
  whether \<open>bot.Send\<close> returned without error.
\<close>

datatype Outgoing =
    Attempt int Sendable bool
  | ProgressReport int int int
  | FinalReport int int int int

fun broadcast_loop ::
  "(nat \<Rightarrow> int \<Rightarrow> bool) \<Rightarrow> Sendable \<Rightarrow> int \<Rightarrow> int \<Rightarrow> nat \<Rightarrow> int list \<Rightarrow>
   int \<Rightarrow> int \<Rightarrow> Outgoing list \<Rightarrow> int \<times> int \<times> Outgoing list" where
  "broadcast_loop deliver payload admin totalUsers i [] sent failed out = (sent, failed, out)"
| "broadcast_loop deliver payload admin totalUsers i (userID # rest) sent failed out =
     (let ok = deliver i userID;
          failed' = (if ok then failed else failed + 1);
          sent' = (if ok then sent + 1 else sent);
          out1 = out @ [Attempt userID payload ok];
          out2 = (if (sent' + failed') mod 100 = 0 \<and> totalUsers > 100
                  then out1 @ [ProgressReport admin (sent' + failed') totalUsers] else out1)
      in broadcast_loop deliver payload admin totalUsers (Suc i) rest sent' failed' out2)"

text \<open>
  The goroutine: the loop over the snapshot, then the final critical section that clears
  the flag in the state as it is then (\<open>b\<close>), then the final report.
\<close>

definition run_broadcast ::
  "(nat \<Rightarrow> int \<Rightarrow> bool) \<Rightarrow> BroadcastJob \<Rightarrow> broadcastState \<Rightarrow>
   broadcastState \<times> int \<times> int \<times> int \<times> Outgoing list" where
  "run_broadcast deliver job b =
     (let totalUsers = int (length (job_userIDs job));
          (sent, failed, out) =
             broadcast_loop deliver (payload_of (job_msg job)) (job_adminID job) totalUsers 0
               (job_userIDs job) 0 0 []
      in (b\<lparr>isActive := False, message := None\<rparr>, sent, failed, totalUsers,
          out @ [FinalReport (job_adminID job) sent failed totalUsers]))"

fun attempts :: "Outgoing list \<Rightarrow> int list" where
  "attempts [] = []"
| "attempts (Attempt u p ok # out) = u # attempts out"
| "attempts (x # out) = attempts out"

subsection \<open>A launch used as the running example\<close>

definition demo_msg :: Message where
  "demo_msg = Message ''hello'' [] None None None None None None None"

definition demo_confirming :: broadcastState where
  "demo_confirming = \<lparr>isActive = False, waitingMsg = False, waitingConfirm = True,
     adminID = 7, message = Some demo_msg\<rparr>"

definition demo_job :: "int list \<Rightarrow> BroadcastJob" where
  "demo_job ids = \<lparr>job_msg = demo_msg, job_userIDs = ids, job_adminID = 7\<rparr>"

subsection \<open>The broadcast handlers and the fan-out as interleaved critical sections\<close>

text \<open>
  Every access to \<open>broadcast\<close> happens under \<open>broadcast.mu\<close>, so each locked section
  is one atomic step.  The steps of concurrently running handlers and of the fan-out
  goroutine interleave in any order; an event list is one such schedule.  Three
  counters that the source does not store record where the control is: handlers
  between the capture of a message and their return (\<open>capturing\<close>), handlers between
  the launch mark and the start of the goroutine (\<open>launching\<close>), and goroutines whose
  recipient loop has not reached its final section (\<open>fanning\<close>).  An event that is
  not enabled leaves the state as it is.
\<close>

record BroadcastSystem =
  bst :: broadcastState
  capturing :: nat
  launching :: nat
  fanning :: nat

definition system_init :: BroadcastSystem where
  "system_init = \<lparr>bst = broadcast_init, capturing = 0, launching = 0, fanning = 0\<rparr>"

datatype BroadcastEvent =
    EvAdminBroadcast int          \<comment> \<open>\<open>HandleAdminBroadcast\<close>\<close>
  | EvCancelBroadcast             \<comment> \<open>\<open>HandleCancelBroadcast\<close>\<close>
  | EvCapture int Message         \<comment> \<open>\<open>HandleBroadcastMessage\<close>, first section\<close>
  | EvCaptureFailed               \<comment> \<open>\<open>HandleBroadcastMessage\<close>, the recipients could not be listed\<close>
  | EvCaptureDone                 \<comment> \<open>\<open>HandleBroadcastMessage\<close> returns after asking to confirm\<close>
  | EvConfirm int                 \<comment> \<open>\<open>HandleConfirmBroadcast\<close>, guard and launch mark\<close>
  | EvConfirmAbort                \<comment> \<open>\<open>HandleConfirmBroadcast\<close>, the recipients could not be listed\<close>
  | EvSpawn                       \<comment> \<open>\<open>HandleConfirmBroadcast\<close> starts the goroutine\<close>
  | EvSend                        \<comment> \<open>one iteration of the recipient loop\<close>
  | EvFinish                      \<comment> \<open>the goroutine's final section\<close>

fun system_step :: "BroadcastSystem \<Rightarrow> BroadcastEvent \<Rightarrow> BroadcastSystem" where
  "system_step s (EvAdminBroadcast uid) = s\<lparr>bst := fst (HandleAdminBroadcast (bst s) uid)\<rparr>"
| "system_step s EvCancelBroadcast = s\<lparr>bst := fst (HandleCancelBroadcast (bst s))\<rparr>"
| "system_step s (EvCapture uid m) =
     (case BroadcastMessage_capture (bst s) uid m of
        None \<Rightarrow> s
      | Some b1 \<Rightarrow> s\<lparr>bst := b1, capturing := capturing s + 1\<rparr>)"
| "system_step s EvCaptureFailed =
     (if capturing s = 0 then s
      else s\<lparr>bst := BroadcastMessage_failed (bst s), capturing := capturing s - 1\<rparr>)"
| "system_step s EvCaptureDone =
     (if capturing s = 0 then s else s\<lparr>capturing := capturing s - 1\<rparr>)"
| "system_step s (EvConfirm uid) =
     (case ConfirmBroadcast_guard (bst s) uid of
        None \<Rightarrow> s
      | Some (b1, msg) \<Rightarrow> s\<lparr>bst := b1, launching := launching s + 1\<rparr>)"
| "system_step s EvConfirmAbort =
     (if launching s = 0 then s
      else s\<lparr>bst := ConfirmBroadcast_abort (bst s), launching := launching s - 1\<rparr>)"
| "system_step s EvSpawn =
     (if launching s = 0 then s
      else s\<lparr>launching := launching s - 1, fanning := fanning s + 1\<rparr>)"
| "system_step s EvSend = s"
| "system_step s EvFinish =
     (if fanning s = 0 then s
      else s\<lparr>bst := (bst s)\<lparr>isActive := False, message := None\<rparr>, fanning := fanning s - 1\<rparr>)"

fun system_run :: "BroadcastSystem \<Rightarrow> BroadcastEvent list \<Rightarrow> BroadcastSystem" where
  "system_run s [] = s"
| "system_run s (e # es) = system_run (system_step s e) es"

definition active_jobs :: "BroadcastSystem \<Rightarrow> nat" where
  "active_jobs s = launching s + fanning s"

definition system_inv :: "BroadcastSystem \<Rightarrow> bool" where
  "system_inv s =
     ((isActive (bst s) \<longleftrightarrow> active_jobs s = 1) \<and> active_jobs s \<le> 1
      \<and> \<not> (waitingMsg (bst s) \<and> waitingConfirm (bst s))
      \<and> \<not> (isActive (bst s) \<and> (waitingMsg (bst s) \<or> waitingConfirm (bst s))))"

definition demo_schedule :: "BroadcastEvent list" where
  "demo_schedule =
     [EvAdminBroadcast 7, EvCapture 7 demo_msg, EvCaptureDone, EvConfirm 7, EvSpawn, EvSend]"

section \<open>Support ticket registry (\<open>SupportTracker\<close>)\<close>

datatype TicketStatus = StatusWaiting | StatusReplied

record ActiveTicket =
  UserID :: int
  Username :: string
  LastMessageTime :: instant
  Status :: TicketStatus
  GroupMessageID :: int
  MessageCount :: int

record SupportTracker =
  tickets :: "int \<rightharpoonup> ActiveTicket"
  dashboardMsgID :: int
  supportGroupID_of :: int

definition AddOrUpdateTicket ::
  "SupportTracker \<Rightarrow> int \<Rightarrow> string \<Rightarrow> int \<Rightarrow> instant \<Rightarrow> SupportTracker" where
  "AddOrUpdateTicket t userID username groupMsgID now =
     (case tickets t userID of
        Some ticket \<Rightarrow>
          t\<lparr>tickets := (tickets t)(userID \<mapsto>
               ticket\<lparr>LastMessageTime := now, Status := StatusWaiting,
                      MessageCount := MessageCount ticket + 1,
                      GroupMessageID :=
                        (if groupMsgID > 0 then groupMsgID else GroupMessageID ticket)\<rparr>)\<rparr>
      | None \<Rightarrow>
          t\<lparr>tickets := (tickets t)(userID \<mapsto>
               \<lparr>UserID = userID, Username = username, LastMessageTime = now,
                Status = StatusWaiting, GroupMessageID = groupMsgID, MessageCount = 1\<rparr>)\<rparr>)"

definition SetTicketReplied :: "SupportTracker \<Rightarrow> int \<Rightarrow> SupportTracker" where
  "SetTicketReplied t userID =
     (case tickets t userID of
        Some ticket \<Rightarrow> t\<lparr>tickets := (tickets t)(userID \<mapsto> ticket\<lparr>Status := StatusReplied\<rparr>)\<rparr>
      | None \<Rightarrow> t)"

definition RemoveTicket :: "SupportTracker \<Rightarrow> int \<Rightarrow> SupportTracker" where
  "RemoveTicket t userID = t\<lparr>tickets := (tickets t)(userID := None)\<rparr>"

text \<open>The comparison function that \<open>GetAllTickets\<close> hands to \<open>sort.Slice\<close>.\<close>

definition ticket_less :: "ActiveTicket \<Rightarrow> ActiveTicket \<Rightarrow> bool" where
  "ticket_less a b =
     (if Status a \<noteq> Status b then Status a = StatusWaiting
      else LastMessageTime a < LastMessageTime b)"

text \<open>
  \<open>GetAllTickets\<close> collects the tickets in the order in which \<open>range\<close> visits the map
  and sorts them.  Go leaves the order of \<open>range\<close> over a map open, so the order is a
  parameter: a list of the keys.  \<open>sort.Slice\<close> belongs to the Go standard library and
  is a parameter as well.
\<close>

definition GetAllTickets ::
  "((ActiveTicket \<Rightarrow> ActiveTicket \<Rightarrow> bool) \<Rightarrow> ActiveTicket list \<Rightarrow> ActiveTicket list) \<Rightarrow>
   int list \<Rightarrow> SupportTracker \<Rightarrow> ActiveTicket list" where
  "GetAllTickets sortSlice keys t =
     sortSlice ticket_less (map (\<lambda>k. the (tickets t k)) keys)"

definition GetWaitingCount :: "int list \<Rightarrow> SupportTracker \<Rightarrow> int" where
  "GetWaitingCount keys t =
     int (length (filter (\<lambda>k. Status (the (tickets t k)) = StatusWaiting) keys))"

text \<open>
  What \<open>sort.Slice\<close> promises for a comparison function: the result is a rearrangement
  of the slice in which no element is less than one before it.
\<close>

definition sorts_by ::
  "('a \<Rightarrow> 'a \<Rightarrow> bool) \<Rightarrow> (('a \<Rightarrow> 'a \<Rightarrow> bool) \<Rightarrow> 'a list \<Rightarrow> 'a list) \<Rightarrow> bool" where
  "sorts_by lt sortSlice =
     (\<forall>xs. mset (sortSlice lt xs) = mset xs
        \<and> sorted_wrt (\<lambda>a b. \<not> lt b a) (sortSlice lt xs))"

text \<open>
  The insertion sort that \<open>sort.Slice\<close> runs on slices of at most twelve elements:
  each element in turn moves left past every predecessor it is lt than.  \<open>sink\<close>
  works on the sorted prefix in reverse, the nearest predecessor first.
\<close>

fun sink :: "('a \<Rightarrow> 'a \<Rightarrow> bool) \<Rightarrow> 'a \<Rightarrow> 'a list \<Rightarrow> 'a list" where
  "sink lt x [] = [x]"
| "sink lt x (y # before) =
     (if lt x y then y # sink lt x before else x # y # before)"

definition insertionSort :: "('a \<Rightarrow> 'a \<Rightarrow> bool) \<Rightarrow> 'a list \<Rightarrow> 'a list" where
  "insertionSort lt xs = rev (fold (sink lt) xs [])"

text \<open>The order of the listing: waiting before replied, then oldest first.\<close>

definition listed_before :: "ActiveTicket \<Rightarrow> ActiveTicket \<Rightarrow> bool" where
  "listed_before a b =
     ((Status a = StatusReplied \<longrightarrow> Status b = StatusReplied)
      \<and> (Status a = Status b \<longrightarrow> LastMessageTime a \<le> LastMessageTime b))"

definition tracker_init :: SupportTracker where
  "tracker_init = \<lparr>tickets = Map.empty, dashboardMsgID = 0, supportGroupID_of = - 1003561858830\<rparr>"

definition demo_tracker :: SupportTracker where
  "demo_tracker =
     SetTicketReplied
       (AddOrUpdateTicket
          (AddOrUpdateTicket (AddOrUpdateTicket tracker_init 1 ''ann'' 0 10) 2 ''bob'' 0 5)
          3 ''cy'' 0 7)
       2"

section \<open>Strings, decimal numbers and the Go library calls the handlers use\<close>

text \<open>
  A Go string is its sequence of bytes (UTF-8), a \<open>char list\<close> here; characters
  outside ASCII are written as their bytes.
\<close>

definition is_digit :: "char \<Rightarrow> bool" where
  "is_digit c = (48 \<le> (of_char c :: int) \<and> (of_char c :: int) \<le> 57)"

definition digit_val :: "char \<Rightarrow> int" where
  "digit_val c = of_char c - 48"

definition parse_digits :: "string \<Rightarrow> int" where
  "parse_digits ds = foldl (\<lambda>acc c. 10 * acc + digit_val c) 0 ds"

text \<open>The decimal digits of a number that is not negative.\<close>

function dec :: "int \<Rightarrow> string" where
  "dec n = (if n < 10 then [char_of (48 + n)] else dec (n div 10) @ [char_of (48 + n mod 10)])"
  by pat_completeness auto
termination
  by (relation "measure nat") auto

declare dec.simps [simp del]

text \<open>The verb \<open>%d\<close> of \<open>fmt.Sprintf\<close> and \<open>strconv.FormatInt(_, 10)\<close>.\<close>

definition FormatInt :: "int \<Rightarrow> string" where
  "FormatInt i = (if i < 0 then CHR ''-'' # dec (- i) else dec i)"

text \<open>
  \<open>strconv.ParseInt(s, 10, 64)\<close>: an optional sign, then one or more decimal digits;
  \<open>None\<close> stands for the syntax error and for the range error.
\<close>

definition ParseInt :: "string \<Rightarrow> int option" where
  "ParseInt s =
     (let neg = (s \<noteq> [] \<and> hd s = CHR ''-'');
          body = (if s \<noteq> [] \<and> (hd s = CHR ''+'' \<or> hd s = CHR ''-'') then tl s else s)
      in if body = [] \<or> \<not> list_all is_digit body then None
         else if neg then
           (if parse_digits body \<le> 2 ^ 63 then Some (- parse_digits body) else None)
         else
           (if parse_digits body < 2 ^ 63 then Some (parse_digits body) else None))"

text \<open>
  \<open>strings.TrimSpace\<close> removes the white space of Unicode at both ends: the six ASCII
  characters, U+0085 and U+00A0 (two bytes each) and the three-byte characters U+1680,
  U+2000 to U+200A, U+2028, U+2029, U+202F, U+205F and U+3000.
\<close>

definition ascii_space :: "char \<Rightarrow> bool" where
  "ascii_space c = (c \<in> set [CHR 0x09, CHR 0x0A, CHR 0x0B, CHR 0x0C, CHR 0x0D, CHR 0x20])"

definition wide_spaces :: "string list" where
  "wide_spaces =
     [[CHR 0xC2, CHR 0x85], [CHR 0xC2, CHR 0xA0], [CHR 0xE1, CHR 0x9A, CHR 0x80],
      [CHR 0xE2, CHR 0x80, CHR 0x80], [CHR 0xE2, CHR 0x80, CHR 0x81],
      [CHR 0xE2, CHR 0x80, CHR 0x82], [CHR 0xE2, CHR 0x80, CHR 0x83],
      [CHR 0xE2, CHR 0x80, CHR 0x84], [CHR 0xE2, CHR 0x80, CHR 0x85],
      [CHR 0xE2, CHR 0x80, CHR 0x86], [CHR 0xE2, CHR 0x80, CHR 0x87],
      [CHR 0xE2, CHR 0x80, CHR 0x88], [CHR 0xE2, CHR 0x80, CHR 0x89],
      [CHR 0xE2, CHR 0x80, CHR 0x8A], [CHR 0xE2, CHR 0x80, CHR 0xA8],
      [CHR 0xE2, CHR 0x80, CHR 0xA9], [CHR 0xE2, CHR 0x80, CHR 0xAF],
      [CHR 0xE2, CHR 0x81, CHR 0x9F], [CHR 0xE3, CHR 0x80, CHR 0x80]]"

definition space_at_start :: "string \<Rightarrow> nat" where
  \<comment> \<open>the number of bytes of the white-space character the string starts with, or 0\<close>
  "space_at_start s =
     (if s = [] then 0
      else if ascii_space (hd s) then 1
      else if take 2 s \<in> set wide_spaces then 2
      else if take 3 s \<in> set wide_spaces then 3
      else 0)"

definition space_at_end :: "string \<Rightarrow> nat" where
  "space_at_end s =
     (if s = [] then 0
      else if ascii_space (last s) then 1
      else if 2 \<le> length s \<and> drop (length s - 2) s \<in> set wide_spaces then 2
      else if 3 \<le> length s \<and> drop (length s - 3) s \<in> set wide_spaces then 3
      else 0)"

function TrimLeft :: "string \<Rightarrow> string" where
  "TrimLeft s = (if space_at_start s = 0 then s else TrimLeft (drop (space_at_start s) s))"
  by pat_completeness auto
termination
  by (relation "measure length") (auto simp: space_at_start_def split: if_splits)

function TrimRight :: "string \<Rightarrow> string" where
  "TrimRight s = (if space_at_end s = 0 then s else TrimRight (take (length s - space_at_end s) s))"
  by pat_completeness auto
termination
  by (relation "measure length") (auto simp: space_at_end_def split: if_splits)

declare TrimLeft.simps [simp del] TrimRight.simps [simp del]

definition TrimSpace :: "string \<Rightarrow> string" where
  "TrimSpace s = TrimRight (TrimLeft s)"

text \<open>
  \<open>regexp.MustCompile(`#user_(\d+)`).FindStringSubmatch\<close>: the leftmost place where
  the text reads \<open>#user_\<close> and then at least one digit; the group is the longest run
  of digits there.
\<close>

fun find_user_tag :: "string \<Rightarrow> string option" where
  "find_user_tag [] = None"
| "find_user_tag (c # cs) =
     (if take 6 (c # cs) = ''#user_'' \<and> takeWhile is_digit (drop 6 (c # cs)) \<noteq> []
      then Some (takeWhile is_digit (drop 6 (c # cs)))
      else find_user_tag cs)"

definition extractUserIDFromTicket :: "string \<Rightarrow> int" where
  "extractUserIDFromTicket text =
     (case find_user_tag text of
        None \<Rightarrow> 0
      | Some ds \<Rightarrow> (case ParseInt ds of Some i \<Rightarrow> i | None \<Rightarrow> 0))"

subsection \<open>Texts of the support bridge, as UTF-8 bytes\<close>

definition ticket_emoji :: string where
  \<comment> \<open>the ticket emoji that opens the header\<close>
  "ticket_emoji =
     [CHR 0xF0, CHR 0x9F, CHR 0x8E, CHR 0xAB]"

definition person_emoji :: string where
  \<comment> \<open>the bust emoji\<close>
  "person_emoji =
     [CHR 0xF0, CHR 0x9F, CHR 0x91, CHR 0xA4]"

definition money_emoji :: string where
  \<comment> \<open>the money bag emoji\<close>
  "money_emoji =
     [CHR 0xF0, CHR 0x9F, CHR 0x92, CHR 0xB0]"

definition ruble_sign :: string where
  \<comment> \<open>the ruble sign\<close>
  "ruble_sign =
     [CHR 0xE2, CHR 0x82, CHR 0xBD]"

definition header_rule :: string where
  \<comment> \<open>twenty heavy horizontal bars\<close>
  "header_rule =
     [CHR 0xE2, CHR 0x94, CHR 0x81, CHR 0xE2, CHR 0x94, CHR 0x81, CHR 0xE2, CHR 0x94,
      CHR 0x81, CHR 0xE2, CHR 0x94, CHR 0x81, CHR 0xE2, CHR 0x94, CHR 0x81, CHR 0xE2,
      CHR 0x94, CHR 0x81, CHR 0xE2, CHR 0x94, CHR 0x81, CHR 0xE2, CHR 0x94, CHR 0x81,
      CHR 0xE2, CHR 0x94, CHR 0x81, CHR 0xE2, CHR 0x94, CHR 0x81, CHR 0xE2, CHR 0x94,
      CHR 0x81, CHR 0xE2, CHR 0x94, CHR 0x81, CHR 0xE2, CHR 0x94, CHR 0x81, CHR 0xE2,
      CHR 0x94, CHR 0x81, CHR 0xE2, CHR 0x94, CHR 0x81, CHR 0xE2, CHR 0x94, CHR 0x81,
      CHR 0xE2, CHR 0x94, CHR 0x81, CHR 0xE2, CHR 0x94, CHR 0x81, CHR 0xE2, CHR 0x94,
      CHR 0x81, CHR 0xE2, CHR 0x94, CHR 0x81]"

definition no_username :: string where
  \<comment> \<open>the word shown for an empty username\<close>
  "no_username =
     [CHR 0xD0, CHR 0xBD, CHR 0xD0, CHR 0xB5, CHR 0xD1, CHR 0x82]"

definition photo_placeholder :: string where
  \<comment> \<open>the caption of a photo sent without one\<close>
  "photo_placeholder =
     [CHR 0x5B, CHR 0xD0, CHR 0xA4, CHR 0xD0, CHR 0xBE, CHR 0xD1, CHR 0x82, CHR 0xD0,
      CHR 0xBE, CHR 0x20, CHR 0xD0, CHR 0xB1, CHR 0xD0, CHR 0xB5, CHR 0xD0, CHR 0xB7,
      CHR 0x20, CHR 0xD0, CHR 0xBF, CHR 0xD0, CHR 0xBE, CHR 0xD0, CHR 0xB4, CHR 0xD0,
      CHR 0xBF, CHR 0xD0, CHR 0xB8, CHR 0xD1, CHR 0x81, CHR 0xD0, CHR 0xB8, CHR 0x5D]"

definition document_placeholder :: string where
  \<comment> \<open>the caption of a document sent without one\<close>
  "document_placeholder =
     [CHR 0x5B, CHR 0xD0, CHR 0x94, CHR 0xD0, CHR 0xBE, CHR 0xD0, CHR 0xBA, CHR 0xD1,
      CHR 0x83, CHR 0xD0, CHR 0xBC, CHR 0xD0, CHR 0xB5, CHR 0xD0, CHR 0xBD, CHR 0xD1,
      CHR 0x82, CHR 0x5D]"

definition voice_placeholder :: string where
  \<comment> \<open>the text that announces a voice message\<close>
  "voice_placeholder =
     [CHR 0x5B, CHR 0xD0, CHR 0x93, CHR 0xD0, CHR 0xBE, CHR 0xD0, CHR 0xBB, CHR 0xD0,
      CHR 0xBE, CHR 0xD1, CHR 0x81, CHR 0xD0, CHR 0xBE, CHR 0xD0, CHR 0xB2, CHR 0xD0,
      CHR 0xBE, CHR 0xD0, CHR 0xB5, CHR 0x20, CHR 0xD1, CHR 0x81, CHR 0xD0, CHR 0xBE,
      CHR 0xD0, CHR 0xBE, CHR 0xD0, CHR 0xB1, CHR 0xD1, CHR 0x89, CHR 0xD0, CHR 0xB5,
      CHR 0xD0, CHR 0xBD, CHR 0xD0, CHR 0xB8, CHR 0xD0, CHR 0xB5, CHR 0x20, CHR 0xD0,
      CHR 0xBD, CHR 0xD0, CHR 0xB8, CHR 0xD0, CHR 0xB6, CHR 0xD0, CHR 0xB5, CHR 0x5D]"

definition support_reply_prefix :: string where
  \<comment> \<open>the line put before a text reply of the staff\<close>
  "support_reply_prefix =
     [CHR 0xF0, CHR 0x9F, CHR 0x91, CHR 0xA8, CHR 0xE2, CHR 0x80, CHR 0x8D, CHR 0xF0,
      CHR 0x9F, CHR 0x92, CHR 0xBB, CHR 0x20, CHR 0x2A, CHR 0xD0, CHR 0x9F, CHR 0xD0,
      CHR 0xBE, CHR 0xD0, CHR 0xB4, CHR 0xD0, CHR 0xB4, CHR 0xD0, CHR 0xB5, CHR 0xD1,
      CHR 0x80, CHR 0xD0, CHR 0xB6, CHR 0xD0, CHR 0xBA, CHR 0xD0, CHR 0xB0, CHR 0x3A,
      CHR 0x2A, CHR 0x0A, CHR 0x0A]"

definition support_photo_caption :: string where
  \<comment> \<open>the caption of a photo reply that has none\<close>
  "support_photo_caption =
     [CHR 0xF0, CHR 0x9F, CHR 0x91, CHR 0xA8, CHR 0xE2, CHR 0x80, CHR 0x8D, CHR 0xF0,
      CHR 0x9F, CHR 0x92, CHR 0xBB, CHR 0x20, CHR 0x2A, CHR 0xD0, CHR 0x9E, CHR 0xD1,
      CHR 0x82, CHR 0xD0, CHR 0xB2, CHR 0xD0, CHR 0xB5, CHR 0xD1, CHR 0x82, CHR 0x20,
      CHR 0xD0, CHR 0xBF, CHR 0xD0, CHR 0xBE, CHR 0xD0, CHR 0xB4, CHR 0xD0, CHR 0xB4,
      CHR 0xD0, CHR 0xB5, CHR 0xD1, CHR 0x80, CHR 0xD0, CHR 0xB6, CHR 0xD0, CHR 0xBA,
      CHR 0xD0, CHR 0xB8, CHR 0x3A, CHR 0x2A]"

section \<open>Support bridge (\<open>HandleSupportUserMessage\<close>, \<open>handleSupportGroupMessage\<close>)\<close>

text \<open>
  The header of a forwarded post.  \<open>usernameStr\<close> is the name as shown and
  \<open>balanceText\<close> the balance as \<open>%.0f\<close> prints it.
\<close>

definition ticket_header :: "int \<Rightarrow> string \<Rightarrow> string \<Rightarrow> string" where
  "ticket_header userID usernameStr balanceText =
     ticket_emoji @ '' '' @ ''#user_'' @ FormatInt userID @ [CHR 0x0A]
     @ person_emoji @ '' '' @ usernameStr @ '' | '' @ money_emoji @ '' '' @ balanceText
     @ '' '' @ ruble_sign @ [CHR 0x0A] @ header_rule @ [CHR 0x0A]"

definition text_post :: "string \<Rightarrow> Message" where
  "text_post t = Message t [] None None None None None None None"

datatype UserNotice = ForwardConfirmed | ForwardFailed

text \<open>
  The posts that reach the staff channel, the notice to the user and the registry.
  \<open>sendOK\<close> says whether the send of the tagged post succeeded; \<open>GetTracker()\<close> may
  be nil, so the registry is optional.
\<close>

definition HandleSupportUserMessage ::
  "int \<Rightarrow> string \<Rightarrow> string \<Rightarrow> Message \<Rightarrow> bool \<Rightarrow> SupportTracker option \<Rightarrow> instant \<Rightarrow>
   Message list \<times> UserNotice \<times> SupportTracker option" where
  "HandleSupportUserMessage userID username balanceText m sendOK tr now =
     (let usernameStr = (if username \<noteq> [] then CHR ''@'' # username else no_username);
          hdr = ticket_header userID usernameStr balanceText;
          tr' = map_option (\<lambda>t. AddOrUpdateTicket t userID username 0 now) tr
      in
      if Photo m \<noteq> None then
        (if sendOK
         then ([Message [] (hdr @ (if Caption m \<noteq> [] then Caption m else photo_placeholder))
                  (Photo m) None None None None None None], ForwardConfirmed, tr')
         else ([], ForwardFailed, tr))
      else if Document m \<noteq> None then
        (if sendOK
         then ([Message [] (hdr @ (if Caption m \<noteq> [] then Caption m else document_placeholder))
                  None (Document m) None None None None None], ForwardConfirmed, tr')
         else ([], ForwardFailed, tr))
      else if Voice m \<noteq> None then
        ((if sendOK
          then [text_post (hdr @ voice_placeholder),
                Message [] [] None None None (Voice m) None None None]
          else []), ForwardConfirmed, tr')
      else
        (if sendOK then ([text_post (hdr @ Text m)], ForwardConfirmed, tr')
         else ([], ForwardFailed, tr)))"

text \<open>
  The four places \<open>handleSupportGroupMessage\<close> searches for the actor, in its order:
  the text replied to, its caption, the original sender of a forwarded message, the
  text one reply further up.  0 stands for "not found".
\<close>

definition reply_target :: "Message \<Rightarrow> int" where
  "reply_target replyTo =
     (let t1 = (if Text replyTo \<noteq> [] then extractUserIDFromTicket (Text replyTo) else 0);
          t2 = (if t1 = 0 \<and> Caption replyTo \<noteq> []
                then extractUserIDFromTicket (Caption replyTo) else t1);
          t3 = (if t2 = 0 \<and> OriginalSender replyTo \<noteq> None
                then the (OriginalSender replyTo) else t2);
          t4 = (if t3 = 0 \<and> ReplyTo replyTo \<noteq> None
                then (if Text (the (ReplyTo replyTo)) \<noteq> []
                      then extractUserIDFromTicket (Text (the (ReplyTo replyTo))) else t3)
                else t3)
      in t4)"

datatype StaffReply =
    ReplyPhoto string string
  | ReplyDocument string
  | ReplyVoice string
  | ReplyVideo string
  | ReplySticker string
  | ReplyText string

definition staff_payload :: "Message \<Rightarrow> StaffReply" where
  "staff_payload msg =
     (if Photo msg \<noteq> None
      then ReplyPhoto (the (Photo msg))
             (if Caption msg \<noteq> [] then Caption msg else support_photo_caption)
      else if Document msg \<noteq> None then ReplyDocument (the (Document msg))
      else if Voice msg \<noteq> None then ReplyVoice (the (Voice msg))
      else if Video msg \<noteq> None then ReplyVideo (the (Video msg))
      else if Sticker msg \<noteq> None then ReplySticker (the (Sticker msg))
      else ReplyText (support_reply_prefix @ Text msg))"

datatype Routing =
    NotAReply
  | Dropped
  | Undelivered int
  | Delivered int StaffReply

definition handleSupportGroupMessage ::
  "Message \<Rightarrow> bool \<Rightarrow> SupportTracker option \<Rightarrow> Routing \<times> SupportTracker option" where
  "handleSupportGroupMessage msg sendOK tr =
     (case ReplyTo msg of
        None \<Rightarrow> (NotAReply, tr)
      | Some replyTo \<Rightarrow>
          (let targetUserID = reply_target replyTo in
           if targetUserID = 0 then (Dropped, tr)
           else if \<not> sendOK then (Undelivered targetUserID, tr)
           else (Delivered targetUserID (staff_payload msg),
                 map_option (\<lambda>t. SetTicketReplied t targetUserID) tr)))"

section \<open>The store and the provisioning backend\<close>

text \<open>
  The relational store is a value: the rows of the four tables the handlers touch and
  the next values of the two sequences.  Each function below is one call of
  \<open>database.DB\<close> on a reachable store; \<open>None\<close> is the error it returns.  A call that
  runs in a transaction either yields the new store or leaves the old one.
\<close>

record User =
  ID :: int
  TelegramID :: int
  UserName :: string
  Balance :: rat

record Product =
  ProductID :: int
  ProductName :: string
  BasePrice :: rat
  MarzbanTag :: string

record Subscription =
  SubID :: int
  SubUserID :: int
  SubProductID :: int
  KeyString :: string
  ExpiresAt :: instant
  SubIsActive :: bool

record LedgerEntry =
  TxUserID :: int
  Amount :: rat
  TxType :: string

record Store =
  users :: "User list"
  products :: "Product list"
  subscriptions :: "Subscription list"
  transactions :: "LedgerEntry list"
  nextUserID :: int
  nextSubID :: int

definition db_GetUserByTelegramID :: "Store \<Rightarrow> int \<Rightarrow> User option" where
  "db_GetUserByTelegramID st telegramID = find (\<lambda>u. TelegramID u = telegramID) (users st)"

definition db_GetUserByID :: "Store \<Rightarrow> int \<Rightarrow> User option" where
  "db_GetUserByID st uid = find (\<lambda>u. ID u = uid) (users st)"

definition db_GetProductByID :: "Store \<Rightarrow> int \<Rightarrow> Product option" where
  "db_GetProductByID st pid = find (\<lambda>p. ProductID p = pid) (products st)"

definition db_GetOrCreateUser :: "Store \<Rightarrow> int \<Rightarrow> string \<Rightarrow> Store \<times> User" where
  "db_GetOrCreateUser st telegramID username =
     (case db_GetUserByTelegramID st telegramID of
        Some u \<Rightarrow>
          (st\<lparr>users := map (\<lambda>v. if TelegramID v = telegramID then v\<lparr>UserName := username\<rparr> else v)
                          (users st)\<rparr>,
           u\<lparr>UserName := username\<rparr>)
      | None \<Rightarrow>
          (let u = \<lparr>ID = nextUserID st, TelegramID = telegramID, UserName = username, Balance = 0\<rparr>
           in (st\<lparr>users := users st @ [u], nextUserID := nextUserID st + 1\<rparr>, u)))"

definition db_AddUserBalance :: "Store \<Rightarrow> int \<Rightarrow> rat \<Rightarrow> string \<Rightarrow> Store option" where
  "db_AddUserBalance st uid amount txType =
     (if db_GetUserByID st uid = None then None
      else Some (st\<lparr>users := map (\<lambda>u. if ID u = uid then u\<lparr>Balance := Balance u + amount\<rparr> else u)
                               (users st),
                     transactions := transactions st @
                       [\<lparr>TxUserID = uid, Amount = amount, TxType = txType\<rparr>]\<rparr>))"

definition db_DeductBalance :: "Store \<Rightarrow> int \<Rightarrow> rat \<Rightarrow> Store option" where
  "db_DeductBalance st uid amount =
     (case db_GetUserByID st uid of
        None \<Rightarrow> None
      | Some u \<Rightarrow>
          if Balance u < amount then None
          else Some (st\<lparr>users := map (\<lambda>v. if ID v = uid then v\<lparr>Balance := Balance v - amount\<rparr> else v)
                                   (users st),
                         transactions := transactions st @
                           [\<lparr>TxUserID = uid, Amount = - amount, TxType = ''purchase''\<rparr>]\<rparr>))"

definition db_CreateSubscription ::
  "Store \<Rightarrow> int \<Rightarrow> int \<Rightarrow> string \<Rightarrow> instant \<Rightarrow> (Store \<times> Subscription) option" where
  "db_CreateSubscription st uid pid keyString expiresAt =
     (if db_GetUserByID st uid = None \<or> db_GetProductByID st pid = None then None
      else (let sub = \<lparr>SubID = nextSubID st, SubUserID = uid, SubProductID = pid,
                        KeyString = keyString, ExpiresAt = expiresAt, SubIsActive = True\<rparr>
            in Some (st\<lparr>subscriptions := subscriptions st @ [sub],
                           nextSubID := nextSubID st + 1\<rparr>, sub)))"

definition db_GetSubscriptionByID :: "Store \<Rightarrow> int \<Rightarrow> (Subscription \<times> Product) option" where
  "db_GetSubscriptionByID st sid =
     (case find (\<lambda>s. SubID s = sid) (subscriptions st) of
        None \<Rightarrow> None
      | Some s \<Rightarrow> map_option (Pair s) (db_GetProductByID st (SubProductID s)))"

definition db_ExtendSubscription :: "Store \<Rightarrow> int \<Rightarrow> instant \<Rightarrow> Store" where
  "db_ExtendSubscription st sid newExpiresAt =
     st\<lparr>subscriptions :=
          map (\<lambda>s. if SubID s = sid then s\<lparr>ExpiresAt := newExpiresAt, SubIsActive := True\<rparr> else s)
            (subscriptions st)\<rparr>"

text \<open>
  What the handlers cannot control is a parameter: whether a call reaches the store
  (\<open>down\<close> names the calls that fail, by their place in the source), what the
  provisioning backend answers to \<open>CreateUser\<close>, and the calendar arithmetic of
  \<open>Time.AddDate(0, months, days)\<close>.
\<close>

datatype CallSite =
    AtGetProduct | AtGetOrCreateUser | AtGetSubscription | AtDeductBalance
  | AtCreateGetProduct | AtCreateGetUser | AtCreateInsert
  | AtExtendGetSubscription | AtExtendUpdate
  | AtCreditGetUser | AtCreditUpdate
  | AtGiftGetUser | AtGiftGetProduct | AtGiftInsert
  | AtRefetchSubscription
  | AtListProducts | AtIssueGetProduct

record Env =
  down :: "CallSite \<Rightarrow> bool"
  vpnCreateUser :: "string \<Rightarrow> string \<Rightarrow> instant \<Rightarrow> string option"
  AddDate :: "instant \<Rightarrow> int \<Rightarrow> int \<Rightarrow> instant"
  unixSeconds :: "instant \<Rightarrow> int"

definition reach :: "Env \<Rightarrow> CallSite \<Rightarrow> 'a option \<Rightarrow> 'a option" where
  "reach env site r = (if down env site then None else r)"

subsection \<open>Service layer (\<open>service.Service\<close>)\<close>

definition CalculatePrice :: "rat \<Rightarrow> int \<Rightarrow> rat \<times> int" where
  "CalculatePrice basePrice months =
     (let discount = (if months = 6 then 10 else if months = 12 then 20 else 0);
          price = basePrice * of_int months
      in (if discount > 0 then price * (1 - of_int discount / 100) else price, discount))"

definition svc_AddUserBalance :: "Env \<Rightarrow> Store \<Rightarrow> int \<Rightarrow> rat \<Rightarrow> Store option" where
  "svc_AddUserBalance env st telegramID amount =
     (case reach env AtCreditGetUser (db_GetUserByTelegramID st telegramID) of
        None \<Rightarrow> None
      | Some u \<Rightarrow> reach env AtCreditUpdate (db_AddUserBalance st (ID u) amount ''manual_deposit''))"

definition svc_DeductBalance :: "Env \<Rightarrow> Store \<Rightarrow> int \<Rightarrow> rat \<Rightarrow> Store option" where
  "svc_DeductBalance env st uid amount = reach env AtDeductBalance (db_DeductBalance st uid amount)"

definition svc_CreateSubscriptionSimple ::
  "Env \<Rightarrow> Store \<Rightarrow> int \<Rightarrow> int \<Rightarrow> instant \<Rightarrow> instant \<Rightarrow> (Store \<times> Subscription) option" where
  "svc_CreateSubscriptionSimple env st uid pid expiresAt now =
     (case reach env AtCreateGetProduct (db_GetProductByID st pid) of
        None \<Rightarrow> None
      | Some product \<Rightarrow>
     (case reach env AtCreateGetUser (db_GetUserByID st uid) of
        None \<Rightarrow> None
      | Some u \<Rightarrow>
     (case vpnCreateUser env
             (''tg_'' @ FormatInt (TelegramID u) @ ''_'' @ FormatInt (unixSeconds env now))
             (MarzbanTag product) expiresAt of
        None \<Rightarrow> None
      | Some keyString \<Rightarrow>
          reach env AtCreateInsert (db_CreateSubscription st uid pid keyString expiresAt))))"

definition svc_ExtendSubscription :: "Env \<Rightarrow> Store \<Rightarrow> int \<Rightarrow> int \<Rightarrow> instant \<Rightarrow> Store option" where
  "svc_ExtendSubscription env st sid months now =
     (case reach env AtExtendGetSubscription (db_GetSubscriptionByID st sid) of
        None \<Rightarrow> None
      | Some (sub, product) \<Rightarrow>
          (let baseTime = (if ExpiresAt sub < now then now else ExpiresAt sub);
               newExpiresAt = AddDate env baseTime months 0
           in reach env AtExtendUpdate (Some (db_ExtendSubscription st sid newExpiresAt))))"

definition svc_GiftSubscription ::
  "Env \<Rightarrow> Store \<Rightarrow> int \<Rightarrow> int \<Rightarrow> int \<Rightarrow> instant \<Rightarrow> (Store \<times> Subscription) option" where
  "svc_GiftSubscription env st telegramID pid days now =
     (case reach env AtGiftGetUser (db_GetUserByTelegramID st telegramID) of
        None \<Rightarrow> None
      | Some u \<Rightarrow>
     (case reach env AtGiftGetProduct (db_GetProductByID st pid) of
        None \<Rightarrow> None
      | Some product \<Rightarrow>
     (case vpnCreateUser env
             (''gift_tg_'' @ FormatInt (TelegramID u) @ ''_'' @ FormatInt (unixSeconds env now))
             (MarzbanTag product) (AddDate env now 0 days) of
        None \<Rightarrow> None
      | Some keyString \<Rightarrow>
          reach env AtGiftInsert
            (db_CreateSubscription st (ID u) pid keyString (AddDate env now 0 days)))))"

subsection \<open>Paying from the balance (\<open>HandlePayWithBalance\<close>, \<open>HandleExtendPay\<close>)\<close>

text \<open>\<open>strings.Split(data, ":")\<close>.\<close>

fun Split_colon :: "string \<Rightarrow> string list" where
  "Split_colon [] = [[]]"
| "Split_colon (c # cs) =
     (if c = CHR '':'' then [] # Split_colon cs
      else (case Split_colon cs of [] \<Rightarrow> [[c]] | w # ws \<Rightarrow> (c # w) # ws))"

text \<open>
  The number \<open>strconv.ParseInt\<close> and \<open>strconv.Atoi\<close> return when the caller drops
  the error: 0 after a syntax error, the nearest bound after a range error.
\<close>

definition ParseInt_value :: "string \<Rightarrow> int" where
  "ParseInt_value s =
     (case ParseInt s of
        Some i \<Rightarrow> i
      | None \<Rightarrow>
          (let body = (if s \<noteq> [] \<and> (hd s = CHR ''+'' \<or> hd s = CHR ''-'') then tl s else s)
           in if body = [] \<or> \<not> list_all is_digit body then 0
              else if hd s = CHR ''-'' then - (2 ^ 63) else 2 ^ 63 - 1))"

datatype PayReply =
    PayBadData
  | PayProductNotFound
  | PaySubscriptionNotFound
  | PayUserError
  | PayInsufficient rat rat
  | PayDeductError
  | PayCreateErrorRefunded   \<comment> \<open>"Oshibka sozdaniya podpiski. Sredstva vozvrashcheny na balans."\<close>
  | PayExtendErrorRefunded   \<comment> \<open>"Oshibka prodleniya podpiski. Sredstva vozvrashcheny na balans."\<close>
  | PayActivated Subscription
  | PayExtended Subscription

text \<open>The calls that move money or provision, in the order the handler makes them.\<close>

datatype SvcCall =
    CallDeduct int rat
  | CallCreate int int
  | CallExtend int int
  | CallCredit int rat

definition sale_price :: "flashSaleState \<Rightarrow> instant \<Rightarrow> rat \<Rightarrow> rat" where
  "sale_price sale now price = (if IsActive sale now then ApplyDiscount sale now price else price)"

definition credit_back :: "Env \<Rightarrow> Store \<Rightarrow> int \<Rightarrow> rat \<Rightarrow> Store" where
  \<comment> \<open>\<open>h.svc.AddUserBalance(ctx, user.TelegramID, price)\<close> with its error dropped\<close>
  "credit_back env st telegramID price =
     (case svc_AddUserBalance env st telegramID price of Some st' \<Rightarrow> st' | None \<Rightarrow> st)"

definition HandlePayWithBalance ::
  "Env \<Rightarrow> flashSaleState \<Rightarrow> Store \<Rightarrow> int \<Rightarrow> string \<Rightarrow> string \<Rightarrow> instant \<Rightarrow>
   Store \<times> PayReply \<times> SvcCall list" where
  "HandlePayWithBalance env sale st sender username dat now =
     (let parts = Split_colon dat in
      if length parts \<noteq> 2 then (st, PayBadData, [])
      else
        (let productID = ParseInt_value (parts ! 0); months = ParseInt_value (parts ! 1) in
         case reach env AtGetProduct (db_GetProductByID st productID) of
           None \<Rightarrow> (st, PayProductNotFound, [])
         | Some product \<Rightarrow>
        (let price = sale_price sale now (fst (CalculatePrice (BasePrice product) months)) in
         case reach env AtGetOrCreateUser (Some (db_GetOrCreateUser st sender username)) of
           None \<Rightarrow> (st, PayUserError, [])
         | Some (st1, user) \<Rightarrow>
             if Balance user < price then (st1, PayInsufficient (Balance user) price, [])
             else
               (case svc_DeductBalance env st1 (ID user) price of
                  None \<Rightarrow> (st1, PayDeductError, [CallDeduct (ID user) price])
                | Some st2 \<Rightarrow>
                    (case svc_CreateSubscriptionSimple env st2 (ID user) productID
                            (AddDate env now months 0) now of
                       None \<Rightarrow>
                         (credit_back env st2 (TelegramID user) price, PayCreateErrorRefunded,
                          [CallDeduct (ID user) price, CallCreate (ID user) productID,
                           CallCredit (TelegramID user) price])
                     | Some (st3, sub) \<Rightarrow>
                         (st3, PayActivated sub,
                          [CallDeduct (ID user) price, CallCreate (ID user) productID]))))))"

definition HandleExtendPay ::
  "Env \<Rightarrow> flashSaleState \<Rightarrow> Store \<Rightarrow> int \<Rightarrow> string \<Rightarrow> string \<Rightarrow> instant \<Rightarrow>
   Store \<times> PayReply \<times> SvcCall list" where
  "HandleExtendPay env sale st sender username dat now =
     (let parts = Split_colon dat in
      if length parts \<noteq> 2 then (st, PayBadData, [])
      else
        (let subID = ParseInt_value (parts ! 0); months = ParseInt_value (parts ! 1) in
         case reach env AtGetSubscription (db_GetSubscriptionByID st subID) of
           None \<Rightarrow> (st, PaySubscriptionNotFound, [])
         | Some (sub, product) \<Rightarrow>
        (let price = sale_price sale now (fst (CalculatePrice (BasePrice product) months)) in
         case reach env AtGetOrCreateUser (Some (db_GetOrCreateUser st sender username)) of
           None \<Rightarrow> (st, PayUserError, [])
         | Some (st1, user) \<Rightarrow>
             if Balance user < price then (st1, PayInsufficient (Balance user) price, [])
             else
               (case svc_DeductBalance env st1 (ID user) price of
                  None \<Rightarrow> (st1, PayDeductError, [CallDeduct (ID user) price])
                | Some st2 \<Rightarrow>
                    (case svc_ExtendSubscription env st2 subID months now of
                       None \<Rightarrow>
                         (credit_back env st2 (TelegramID user) price, PayExtendErrorRefunded,
                          [CallDeduct (ID user) price, CallExtend subID months,
                           CallCredit (TelegramID user) price])
                     | Some st3 \<Rightarrow>
                         (st3,
                          PayExtended
                            (case reach env AtRefetchSubscription (db_GetSubscriptionByID st3 subID)
                             of Some (updatedSub, p) \<Rightarrow> updatedSub | None \<Rightarrow> sub),
                          [CallDeduct (ID user) price, CallExtend subID months]))))))"

definition balance_of :: "Store \<Rightarrow> int \<Rightarrow> rat option" where
  "balance_of st telegramID = map_option Balance (db_GetUserByTelegramID st telegramID)"

subsection \<open>A store and two environments used as running examples\<close>

definition demo_store :: Store where
  "demo_store =
     \<lparr>users = [\<lparr>ID = 1, TelegramID = 100, UserName = ''ann'', Balance = 1000\<rparr>],
      products = [\<lparr>ProductID = 1, ProductName = ''X-RAY MODE'', BasePrice = 450,
                   MarzbanTag = ''xray_mode''\<rparr>],
      subscriptions = [\<lparr>SubID = 1, SubUserID = 1, SubProductID = 1, KeyString = ''key-1'',
                        ExpiresAt = 0, SubIsActive = True\<rparr>],
      transactions = [], nextUserID = 2, nextSubID = 2\<rparr>"

definition demo_no_sale :: flashSaleState where
  "demo_no_sale = \<lparr>discountPercent = 0, endTime = zeroTime\<rparr>"

definition demo_env :: "(string \<Rightarrow> string \<Rightarrow> instant \<Rightarrow> string option) \<Rightarrow> (CallSite \<Rightarrow> bool) \<Rightarrow> Env" where
  "demo_env vpn failing =
     \<lparr>down = failing, vpnCreateUser = vpn,
      AddDate = (\<lambda>t months days. t + (30 * months + days) * 24 * Hour),
      unixSeconds = (\<lambda>t. t div 1000000000)\<rparr>"

definition vpn_refuses :: "string \<Rightarrow> string \<Rightarrow> instant \<Rightarrow> string option" where
  "vpn_refuses username tag expiresAt = None"

definition vpn_grants :: "string \<Rightarrow> string \<Rightarrow> instant \<Rightarrow> string option" where
  "vpn_grants username tag expiresAt = Some (''vless://'' @ username)"

definition demo_refunded_store :: Store where
  "demo_refunded_store =
     demo_store\<lparr>transactions :=
       [\<lparr>TxUserID = 1, Amount = - 450, TxType = ''purchase''\<rparr>,
        \<lparr>TxUserID = 1, Amount = 450, TxType = ''manual_deposit''\<rparr>]\<rparr>"

section \<open>Conversation state and the text router (\<open>RegisterAdmin\<close>, \<open>OnText\<close>)\<close>

record issueSession =
  step :: int
  productID :: int
  days :: int

record promoWizardSession =
  wizard_step :: int
  wizard_code :: string
  wizard_amount :: rat

text \<open>
  The handler's configuration and the package-level state the router reads.  A Go
  \<open>map[int64]bool\<close> whose entries are only ever \<open>true\<close> or deleted is a predicate; a
  map to sessions or to ids is a partial function.
\<close>

record BotState =
  adminIDs :: "int list"
  supportGroupID :: int
  userPromo :: "int \<Rightarrow> bool"
  userInSupport :: "int \<Rightarrow> bool"
  adminReplyingTo :: "int \<rightharpoonup> int"
  broadcast :: broadcastState
  searchWaiting :: "int \<Rightarrow> bool"
  addBalTo :: "int \<rightharpoonup> int"
  issueSessions :: "int \<rightharpoonup> issueSession"
  promoWizardSessions :: "int \<rightharpoonup> promoWizardSession"
  promoDeleteWaiting :: "int \<Rightarrow> bool"

definition bot_init :: "int list \<Rightarrow> int \<Rightarrow> BotState" where
  "bot_init admins groupID =
     \<lparr>adminIDs = admins, supportGroupID = groupID, userPromo = (\<lambda>u. False),
      userInSupport = (\<lambda>u. False), adminReplyingTo = Map.empty, broadcast = broadcast_init,
      searchWaiting = (\<lambda>u. False), addBalTo = Map.empty, issueSessions = Map.empty,
      promoWizardSessions = Map.empty, promoDeleteWaiting = (\<lambda>u. False)\<rparr>"

definition isAdmin :: "BotState \<Rightarrow> int \<Rightarrow> bool" where
  "isAdmin h userID = (userID \<in> set (adminIDs h))"

definition SetUserPromoMode :: "BotState \<Rightarrow> int \<Rightarrow> bool \<Rightarrow> BotState" where
  "SetUserPromoMode h userID active = h\<lparr>userPromo := (userPromo h)(userID := active)\<rparr>"

definition IsUserInPromoMode :: "BotState \<Rightarrow> int \<Rightarrow> bool" where
  "IsUserInPromoMode h userID = userPromo h userID"

definition SetUserSupportMode :: "BotState \<Rightarrow> int \<Rightarrow> bool \<Rightarrow> BotState" where
  "SetUserSupportMode h userID active = h\<lparr>userInSupport := (userInSupport h)(userID := active)\<rparr>"

definition IsUserInSupportMode :: "BotState \<Rightarrow> int \<Rightarrow> bool" where
  "IsUserInSupportMode h userID = userInSupport h userID"

definition GetAdminReplyTarget :: "BotState \<Rightarrow> int \<Rightarrow> int" where
  "GetAdminReplyTarget h admin = (case adminReplyingTo h admin of Some u \<Rightarrow> u | None \<Rightarrow> 0)"

definition SetAdminReplyTarget :: "BotState \<Rightarrow> int \<Rightarrow> int \<Rightarrow> BotState" where
  "SetAdminReplyTarget h admin userID =
     (if userID > 0 then h\<lparr>adminReplyingTo := (adminReplyingTo h)(admin \<mapsto> userID)\<rparr>
      else h\<lparr>adminReplyingTo := (adminReplyingTo h)(admin := None)\<rparr>)"

text \<open>\<open>HandlePromoEnter\<close> and \<open>HandleCreateTicket\<close> switch one mode on and leave the other.\<close>

definition HandlePromoEnter :: "BotState \<Rightarrow> int \<Rightarrow> BotState" where
  "HandlePromoEnter h sender = SetUserPromoMode h sender True"

definition HandleCreateTicket :: "BotState \<Rightarrow> int \<Rightarrow> BotState" where
  "HandleCreateTicket h sender = SetUserSupportMode h sender True"

text \<open>The handler that the router hands a text event to.\<close>

datatype Route =
    ToSupportGroupMessage
  | ToUserPromoInput
  | ToSupportUserMessage
  | ToSupportAdminReply int
  | ToBroadcastMessage
  | ToAdminAddBalAmount int
  | ToAdminFindUserInput
  | ToIssueUserID
  | ToAdminPromoWizardInput
  | ToAdminPromoDeleteInput
  | ToNothing

text \<open>
  The router of \<open>tele.OnText\<close>, in the order of its checks.  \<open>chatID\<close> is \<open>None\<close>
  when \<open>c.Chat()\<close> is nil.
\<close>

definition OnText :: "BotState \<Rightarrow> int \<Rightarrow> int option \<Rightarrow> Route" where
  "OnText h userID chatID =
     (if chatID = Some (supportGroupID h) then ToSupportGroupMessage
      else if \<not> isAdmin h userID \<and> IsUserInPromoMode h userID then ToUserPromoInput
      else if IsUserInSupportMode h userID then ToSupportUserMessage
      else if \<not> isAdmin h userID then ToNothing
      else if GetAdminReplyTarget h userID > 0 then ToSupportAdminReply (GetAdminReplyTarget h userID)
      else if waitingMsg (broadcast h) \<and> adminID (broadcast h) = userID then ToBroadcastMessage
      else if (case addBalTo h userID of Some t \<Rightarrow> t | None \<Rightarrow> 0) > 0
        then ToAdminAddBalAmount (the (addBalTo h userID))
      else if searchWaiting h userID then ToAdminFindUserInput
      else if (case issueSessions h userID of Some s \<Rightarrow> step s = 3 | None \<Rightarrow> False)
        then ToIssueUserID
      else if promoWizardSessions h userID \<noteq> None then ToAdminPromoWizardInput
      else if promoDeleteWaiting h userID then ToAdminPromoDeleteInput
      else ToNothing)"

subsection \<open>Key issuance (\<open>HandleIssueStart\<close> to \<open>HandleIssueUserID\<close>)\<close>

datatype IssueReply =
    IssueChooseProduct
  | IssueProductsError
  | IssueError
  | IssueProductNotFound
  | IssueChooseDays
  | IssueAskUserID
  | IssueNilProduct           \<comment> \<open>\<open>HandleIssueDays\<close> reads the product it failed to load\<close>
  | IssueInvalidTelegramID    \<comment> \<open>"Nevernyj Telegram ID. Vvedite chislo ili ispolzujte knopku."\<close>
  | IssueKeyError
  | IssueKeyCreated Subscription
  | IssueUserNotified
  | IssueUserNotifyFailed

definition HandleIssueStart ::
  "Env \<Rightarrow> (int \<rightharpoonup> issueSession) \<Rightarrow> int \<Rightarrow> (int \<rightharpoonup> issueSession) \<times> IssueReply list" where
  "HandleIssueStart env sessions sender =
     (sessions(sender \<mapsto> \<lparr>step = 1, productID = 0, days = 0\<rparr>),
      [if down env AtListProducts then IssueProductsError else IssueChooseProduct])"

definition HandleIssueProduct ::
  "Env \<Rightarrow> (int \<rightharpoonup> issueSession) \<Rightarrow> Store \<Rightarrow> int \<Rightarrow> string \<Rightarrow>
   (int \<rightharpoonup> issueSession) \<times> IssueReply list" where
  "HandleIssueProduct env sessions st sender dat =
     (case ParseInt dat of
        None \<Rightarrow> (sessions, [IssueError])
      | Some pid \<Rightarrow>
          (case sessions sender of
             None \<Rightarrow> HandleIssueStart env sessions sender
           | Some session \<Rightarrow>
               (sessions(sender \<mapsto> session\<lparr>productID := pid, step := 2\<rparr>),
                [if reach env AtIssueGetProduct (db_GetProductByID st pid) \<noteq> None
                 then IssueChooseDays else IssueProductNotFound])))"

definition HandleIssueDays ::
  "Env \<Rightarrow> (int \<rightharpoonup> issueSession) \<Rightarrow> Store \<Rightarrow> int \<Rightarrow> string \<Rightarrow>
   (int \<rightharpoonup> issueSession) \<times> IssueReply list" where
  "HandleIssueDays env sessions st sender dat =
     (case ParseInt dat of
        None \<Rightarrow> (sessions, [IssueError])
      | Some d \<Rightarrow>
          (case sessions sender of
             None \<Rightarrow> HandleIssueStart env sessions sender
           | Some session \<Rightarrow>
               (sessions(sender \<mapsto> session\<lparr>days := d, step := 3\<rparr>),
                [if reach env AtIssueGetProduct (db_GetProductByID st (productID session)) \<noteq> None
                 then IssueAskUserID else IssueNilProduct])))"

text \<open>
  \<open>HandleIssueUserID\<close>: the session is deleted in the critical section that reads it,
  before the text is parsed.  \<open>notifyOK\<close> is the outcome of the message to the user.
\<close>

definition HandleIssueUserID ::
  "Env \<Rightarrow> (int \<rightharpoonup> issueSession) \<Rightarrow> Store \<Rightarrow> int \<Rightarrow> string \<Rightarrow> instant \<Rightarrow> bool \<Rightarrow>
   (int \<rightharpoonup> issueSession) \<times> Store \<times> IssueReply list" where
  "HandleIssueUserID env sessions st sender txt now notifyOK =
     (case sessions sender of
        None \<Rightarrow> (sessions, st, [])
      | Some session \<Rightarrow>
          if step session \<noteq> 3 then (sessions, st, [])
          else
            (case ParseInt (TrimSpace txt) of
               None \<Rightarrow> (sessions(sender := None), st, [IssueInvalidTelegramID])
             | Some telegramID \<Rightarrow>
                 (case svc_GiftSubscription env st telegramID (productID session) (days session) now of
                    None \<Rightarrow> (sessions(sender := None), st, [IssueKeyError])
                  | Some (st', sub) \<Rightarrow>
                      (sessions(sender := None), st',
                       [IssueKeyCreated sub,
                        if notifyOK then IssueUserNotified else IssueUserNotifyFailed]))))"

definition demo_issue_flow :: "int \<rightharpoonup> issueSession" where
  \<comment> \<open>actor 555 enters the flow, selects product 1, selects 30 days\<close>
  "demo_issue_flow =
     fst (HandleIssueDays (demo_env vpn_grants (\<lambda>site. False))
            (fst (HandleIssueProduct (demo_env vpn_grants (\<lambda>site. False))
                    (fst (HandleIssueStart (demo_env vpn_grants (\<lambda>site. False)) Map.empty 555))
                    demo_store 555 ''1''))
            demo_store 555 ''30'')"

text \<open>An actor who entered promo entry and then opened a ticket; 7 is the only admin.\<close>

definition both_modes :: "int \<Rightarrow> BotState" where
  "both_modes actor =
     HandleCreateTicket (HandlePromoEnter (bot_init [7] (- 1003561858830)) actor) actor"

section \<open>Watchdog (\<open>service.Watchdog\<close>)\<close>

record WatchdogConfig =
  CheckInterval :: duration
  CPUThreshold :: rat
  NetworkThreshold :: rat
  AlertCooldown :: duration

definition Second :: duration where
  "Second = 1000000000"

definition Minute :: duration where
  "Minute = 60 * Second"

definition DefaultWatchdogConfig :: WatchdogConfig where
  "DefaultWatchdogConfig =
     \<lparr>CheckInterval = 30 * Second, CPUThreshold = 85, NetworkThreshold = 400,
      AlertCooldown = 5 * Minute\<rparr>"

record SystemStats =
  CPUPercent :: rat
  MemoryPercent :: rat
  NetworkRxMbps :: rat
  NetworkTxMbps :: rat
  TotalUsers :: int
  ActiveUsers :: int

record Watchdog =
  config :: WatchdogConfig
  lastAlertTime :: instant
  isRunning :: bool

definition NewWatchdog :: "WatchdogConfig \<Rightarrow> Watchdog" where
  "NewWatchdog cfg = \<lparr>config = cfg, lastAlertTime = zeroTime, isRunning = False\<rparr>"

text \<open>\<open>Time.Sub\<close>, and so \<open>time.Since\<close>, saturates at the bounds of \<open>Duration\<close>.\<close>

definition Sub_time :: "instant \<Rightarrow> instant \<Rightarrow> duration" where
  "Sub_time t u =
     (if t - u > 2 ^ 63 - 1 then 2 ^ 63 - 1 else if t - u < - (2 ^ 63) then - (2 ^ 63) else t - u)"

record Alert =
  alert_time :: instant
  alert_stats :: SystemStats
  alert_cpu :: bool
  alert_network :: bool

text \<open>
  \<open>checkSystem\<close>.  \<open>stats\<close> is the answer of \<open>GetSystemStats\<close> (\<open>None\<close> for its
  error), \<open>since\<close> the instant at which \<open>time.Since\<close> reads the clock and \<open>now\<close> the
  instant of the \<open>time.Now()\<close> stored as \<open>lastAlertTime\<close>; the alert carries that
  instant.
\<close>

definition breach :: "WatchdogConfig \<Rightarrow> SystemStats \<Rightarrow> bool" where
  "breach cfg stats =
     (CPUPercent stats \<ge> CPUThreshold cfg \<or> NetworkRxMbps stats \<ge> NetworkThreshold cfg)"

definition checkSystem ::
  "Watchdog \<Rightarrow> SystemStats option \<Rightarrow> instant \<Rightarrow> instant \<Rightarrow> Watchdog \<times> Alert option" where
  "checkSystem w stats since now =
     (case stats of
        None \<Rightarrow> (w, None)
      | Some s \<Rightarrow>
          (let cpuAlert = (CPUPercent s \<ge> CPUThreshold (config w));
               networkAlert = (NetworkRxMbps s \<ge> NetworkThreshold (config w))
           in if \<not> cpuAlert \<and> \<not> networkAlert then (w, None)
              else if Sub_time since (lastAlertTime w) < AlertCooldown (config w) then (w, None)
              else (w\<lparr>lastAlertTime := now\<rparr>,
                    Some \<lparr>alert_time = now, alert_stats = s, alert_cpu = cpuAlert,
                          alert_network = networkAlert\<rparr>)))"

text \<open>A sequence of ticks of the loop: what each call of \<open>checkSystem\<close> meets.\<close>

record Tick =
  tick_stats :: "SystemStats option"
  tick_since :: instant
  tick_now :: instant

fun run_ticks :: "Watchdog \<Rightarrow> Tick list \<Rightarrow> Watchdog \<times> Alert list" where
  "run_ticks w [] = (w, [])"
| "run_ticks w (t # ts) =
     (case checkSystem w (tick_stats t) (tick_since t) (tick_now t) of
        (w', None) \<Rightarrow> run_ticks w' ts
      | (w', Some a) \<Rightarrow> (case run_ticks w' ts of (w'', as) \<Rightarrow> (w'', a # as)))"

text \<open>The clock does not run backwards: instants are read in nondecreasing order.\<close>

fun clock_ok :: "instant \<Rightarrow> Tick list \<Rightarrow> bool" where
  "clock_ok t0 [] = True"
| "clock_ok t0 (t # ts) = (t0 \<le> tick_since t \<and> tick_since t \<le> tick_now t \<and> clock_ok (tick_now t) ts)"

definition hot_stats :: SystemStats where
  "hot_stats = \<lparr>CPUPercent = 97, MemoryPercent = 50, NetworkRxMbps = 10, NetworkTxMbps = 5,
     TotalUsers = 100, ActiveUsers = 40\<rparr>"

definition calm_stats :: SystemStats where
  "calm_stats = \<lparr>CPUPercent = 20, MemoryPercent = 50, NetworkRxMbps = 10, NetworkTxMbps = 5,
     TotalUsers = 100, ActiveUsers = 40\<rparr>"

definition hot_ticks :: "duration \<Rightarrow> nat \<Rightarrow> Tick list" where
  \<comment> \<open>\<open>n\<close> ticks, \<open>gap\<close> apart from instant 0, all over the threshold\<close>
  "hot_ticks gap n =
     map (\<lambda>k. \<lparr>tick_stats = Some hot_stats, tick_since = int k * gap,
                 tick_now = int k * gap\<rparr>) [0..<n]"

subsection \<open>Start, Stop and the loop goroutines\<close>

text \<open>
  \<open>Start\<close> and \<open>Stop\<close> run in the caller's goroutine, each \<open>runLoop\<close> in its own.
  A loop is at its \<open>select\<close>, inside \<open>checkSystem\<close>, or has returned; its ticker
  holds at most one waiting tick.  The steps of callers, tickers and loops interleave
  in any order, and an event list is one schedule.  When both cases of the \<open>select\<close>
  are ready Go takes either, so \<open>SelectTick\<close> needs only a waiting tick and
  \<open>SelectStop\<close> only the closed channel.  Closing a closed channel panics.  An event
  that is not enabled leaves the state as it is.
\<close>

datatype Phase = AtSelect | InCheck | Returned

record Loop =
  phase :: Phase
  tickWaiting :: bool

datatype Observation =
    StopReturned
  | Sampled nat
  | AlertSent nat instant

record WatchdogSystem =
  wd :: Watchdog
  stopClosed :: bool
  loops :: "Loop list"
  observed :: "Observation list"
  panicked :: bool

datatype WatchdogEvent =
    CallStart
  | CallStop
  | TickerFires nat
  | SelectTick nat
  | SelectStop nat
  | CheckDone nat "SystemStats option" instant instant

definition watchdog_system :: "WatchdogConfig \<Rightarrow> WatchdogSystem" where
  "watchdog_system cfg =
     \<lparr>wd = NewWatchdog cfg, stopClosed = False, loops = [], observed = [], panicked = False\<rparr>"

definition Start :: "WatchdogSystem \<Rightarrow> WatchdogSystem" where
  "Start s =
     (if isRunning (wd s) then s
      else s\<lparr>wd := (wd s)\<lparr>isRunning := True\<rparr>,
             loops := loops s @ [\<lparr>phase = AtSelect, tickWaiting = False\<rparr>]\<rparr>)"

definition Stop :: "WatchdogSystem \<Rightarrow> WatchdogSystem" where
  "Stop s =
     (if \<not> isRunning (wd s) then s
      else if stopClosed s then s\<lparr>wd := (wd s)\<lparr>isRunning := False\<rparr>, panicked := True\<rparr>
      else s\<lparr>wd := (wd s)\<lparr>isRunning := False\<rparr>, stopClosed := True,
             observed := observed s @ [StopReturned]\<rparr>)"

definition loop_step :: "WatchdogSystem \<Rightarrow> nat \<Rightarrow> WatchdogEvent \<Rightarrow> WatchdogSystem" where
  "loop_step s i e =
     (if i \<ge> length (loops s) then s
      else
        (let l = loops s ! i in
         case e of
           TickerFires j \<Rightarrow>
             if phase l = Returned then s else s\<lparr>loops := (loops s)[i := l\<lparr>tickWaiting := True\<rparr>]\<rparr>
         | SelectTick j \<Rightarrow>
             if phase l = AtSelect \<and> tickWaiting l
             then s\<lparr>loops := (loops s)[i := \<lparr>phase = InCheck, tickWaiting = False\<rparr>],
                    observed := observed s @ [Sampled i]\<rparr>
             else s
         | SelectStop j \<Rightarrow>
             if phase l = AtSelect \<and> stopClosed s
             then s\<lparr>loops := (loops s)[i := l\<lparr>phase := Returned\<rparr>]\<rparr>
             else s
         | CheckDone j stats since now \<Rightarrow>
             if phase l = InCheck
             then (case checkSystem (wd s) stats since now of
                     (w', a) \<Rightarrow>
                       s\<lparr>wd := w', loops := (loops s)[i := l\<lparr>phase := AtSelect\<rparr>],
                          observed := observed s @
                            (case a of None \<Rightarrow> [] | Some al \<Rightarrow> [AlertSent i (alert_time al)])\<rparr>)
             else s
         | _ \<Rightarrow> s))"

fun event_loop :: "WatchdogEvent \<Rightarrow> nat option" where
  "event_loop (TickerFires i) = Some i"
| "event_loop (SelectTick i) = Some i"
| "event_loop (SelectStop i) = Some i"
| "event_loop (CheckDone i stats since now) = Some i"
| "event_loop e = None"

definition watchdog_step :: "WatchdogSystem \<Rightarrow> WatchdogEvent \<Rightarrow> WatchdogSystem" where
  "watchdog_step s e =
     (if panicked s then s
      else case e of
             CallStart \<Rightarrow> Start s
           | CallStop \<Rightarrow> Stop s
           | _ \<Rightarrow> loop_step s (the (event_loop e)) e)"

fun watchdog_run :: "WatchdogSystem \<Rightarrow> WatchdogEvent list \<Rightarrow> WatchdogSystem" where
  "watchdog_run s [] = s"
| "watchdog_run s (e # es) = watchdog_run (watchdog_step s e) es"

definition stop_during_check :: "WatchdogEvent list" where
  \<comment> \<open>\<open>Stop\<close> is called while the loop is inside \<open>checkSystem\<close>\<close>
  "stop_during_check =
     [CallStart, TickerFires 0, SelectTick 0, CallStop, CheckDone 0 (Some hot_stats) 100 100]"

definition stop_before_select :: "WatchdogEvent list" where
  \<comment> \<open>\<open>Stop\<close> is called while a tick waits; the \<open>select\<close> then takes the tick\<close>
  "stop_before_select = [CallStart, TickerFires 0, CallStop, SelectTick 0]"

definition stop_then_exit :: "WatchdogEvent list" where
  "stop_then_exit = [CallStart, TickerFires 0, CallStop, SelectStop 0]"

definition demo_started :: WatchdogSystem where
  "demo_started = watchdog_run (watchdog_system DefaultWatchdogConfig) [CallStart]"

definition demo_stopped :: WatchdogSystem where
  "demo_stopped =
     watchdog_run (watchdog_system DefaultWatchdogConfig) [CallStart, TickerFires 0, CallStop]"

definition demo_exited :: WatchdogSystem where
  "demo_exited = watchdog_run (watchdog_system DefaultWatchdogConfig) stop_then_exit"

section \<open>Properties of the flash sale\<close>

text \<open>
  C8.  The sale is active exactly when its percentage is positive and the instant is
  before the expiry; set to 50 percent for 6 hours at \<open>T0\<close> it is active one hour
  later and inactive seven hours later; while active a price \<open>p\<close> becomes
  \<open>p * (100 - percent) / 100\<close>, so 450 becomes 225; while inactive the price is returned
  unchanged.
\<close>

theorem flash_sale_active_and_discount:
  "(IsActive f now \<longleftrightarrow> discountPercent f > 0 \<and> now < endTime f)
   \<and> IsActive (Set_sale f 50 6 T0) (T0 + 1 * Hour)
   \<and> \<not> IsActive (Set_sale f 50 6 T0) (T0 + 7 * Hour)
   \<and> ApplyDiscount (Set_sale f 50 6 T0) (T0 + 1 * Hour) 450 = 225
   \<and> (IsActive f now \<longrightarrow>
        ApplyDiscount f now price = price * of_int (100 - discountPercent f) / 100)
   \<and> (\<not> IsActive f now \<longrightarrow> ApplyDiscount f now price = price)"
  by (auto simp: IsActive_def Set_sale_def ApplyDiscount_def GetDiscount_def Hour_def
      wrap64_def Let_def)

theorem flash_sale_active_and_discount_witness:
  "IsActive \<lparr>discountPercent = 30, endTime = 100\<rparr> 40
   \<and> ApplyDiscount \<lparr>discountPercent = 30, endTime = 100\<rparr> 40 200 = 140
   \<and> \<not> IsActive \<lparr>discountPercent = 30, endTime = 100\<rparr> 100
   \<and> ApplyDiscount \<lparr>discountPercent = 30, endTime = 100\<rparr> 100 200 = 200"
  using flash_sale_active_and_discount
          [of "\<lparr>discountPercent = 30, endTime = 100\<rparr>" 40 0 200]
        flash_sale_active_and_discount
          [of "\<lparr>discountPercent = 30, endTime = 100\<rparr>" 100 0 200]
  by (simp add: IsActive_def)

section \<open>Properties of the broadcast fan-out\<close>

lemma broadcast_loop_count:
  "broadcast_loop deliver p a t i us s f out = (s', f', out') \<Longrightarrow>
     s' + f' = s + f + int (length us)"
proof (induction us arbitrary: i s f out)
  case Nil
  then show ?case by simp
next
  case (Cons u us)
  then show ?case by (cases "deliver i u") (fastforce simp: Let_def)+
qed

lemma attempts_append: "attempts (xs @ ys) = attempts xs @ attempts ys"
  by (induction xs rule: attempts.induct) simp_all

lemma broadcast_loop_attempts:
  "broadcast_loop deliver p a t i us s f out = (s', f', out') \<Longrightarrow>
     attempts out' = attempts out @ us"
proof (induction us arbitrary: i s f out)
  case Nil
  then show ?case by simp
next
  case (Cons u us)
  from Cons.prems Cons.IH show ?case
    by (simp add: Let_def attempts_append split: if_splits)
qed

lemma broadcast_loop_all_ok:
  "broadcast_loop deliver p a t i us s f out = (s', f', out') \<Longrightarrow>
     \<forall>k u. deliver k u \<Longrightarrow> f' = f"
proof (induction us arbitrary: i s f out)
  case Nil
  then show ?case by simp
next
  case (Cons u us)
  from Cons.prems Cons.IH show ?case
    by (simp add: Let_def split: if_splits)
qed

lemma broadcast_loop_all_fail:
  "broadcast_loop deliver p a t i us s f out = (s', f', out') \<Longrightarrow>
     \<forall>k u. \<not> deliver k u \<Longrightarrow> s' = s"
proof (induction us arbitrary: i s f out)
  case Nil
  then show ?case by simp
next
  case (Cons u us)
  from Cons.prems Cons.IH show ?case
    by (simp add: Let_def split: if_splits)
qed

text \<open>
  C1.  A broadcast launched by \<open>HandleConfirmBroadcast\<close> over the snapshot \<open>ids\<close> has
  set the running flag; its fan-out attempts every recipient of the snapshot once, in
  order, whatever the outcomes (no failure aborts the run); the final report closes the
  output and satisfies \<open>sent + failed = total = length ids\<close>; with every send
  succeeding \<open>failed = 0\<close>, with every send failing \<open>sent = 0\<close>, with no recipient
  both are 0; and the flag is false in the state the goroutine leaves, whatever the
  handlers did to the state in between (\<open>b2\<close>).  When the recipients cannot be listed
  no job is started.
\<close>

theorem broadcast_accounting:
  assumes "HandleConfirmBroadcast b sender (Some ids) = (b1, r, Some job)"
  shows "isActive b1 \<and> job_userIDs job = ids
    \<and> snd (snd (HandleConfirmBroadcast b sender None)) = None
    \<and> (case run_broadcast deliver job b2 of (b', sent, failed, tot, out) \<Rightarrow>
          tot = int (length ids) \<and> sent + failed = tot
          \<and> attempts out = ids
          \<and> last out = FinalReport (job_adminID job) sent failed tot
          \<and> \<not> isActive b'
          \<and> ((\<forall>k u. deliver k u) \<longrightarrow> sent = tot \<and> failed = 0)
          \<and> ((\<forall>k u. \<not> deliver k u) \<longrightarrow> sent = 0 \<and> failed = tot)
          \<and> (ids = [] \<longrightarrow> sent = 0 \<and> failed = 0))"
proof -
  from assms have launch: "isActive b1 \<and> job_userIDs job = ids"
    by (auto simp: HandleConfirmBroadcast_def ConfirmBroadcast_guard_def
        split: option.splits if_splits)
  have nojob: "snd (snd (HandleConfirmBroadcast b sender None)) = None"
    by (simp add: HandleConfirmBroadcast_def split: option.splits prod.splits)
  obtain s f out where loop:
    "broadcast_loop deliver (payload_of (job_msg job)) (job_adminID job)
       (int (length ids)) 0 ids 0 0 [] = (s, f, out)"
    by (metis prod_cases3)
  have run: "run_broadcast deliver job b2 =
      (b2\<lparr>isActive := False, message := None\<rparr>, s, f, int (length ids),
       out @ [FinalReport (job_adminID job) s f (int (length ids))])"
    using launch loop by (simp add: run_broadcast_def Let_def)
  have count: "s + f = int (length ids)"
    using broadcast_loop_count [OF loop] by simp
  have att: "attempts out = ids"
    using broadcast_loop_attempts [OF loop] by simp
  have ok: "(\<forall>k u. deliver k u) \<longrightarrow> f = 0"
    using broadcast_loop_all_ok [OF loop] by blast
  have bad: "(\<forall>k u. \<not> deliver k u) \<longrightarrow> s = 0"
    using broadcast_loop_all_fail [OF loop] by blast
  have empty: "ids = [] \<longrightarrow> s = 0 \<and> f = 0"
    using loop by auto
  show ?thesis
    using launch nojob count att ok bad empty
    by (auto simp: run attempts_append)
qed

lemma demo_launch:
  "HandleConfirmBroadcast demo_confirming 7 (Some ids) =
     (demo_confirming\<lparr>waitingConfirm := False, isActive := True\<rparr>,
      BroadcastStarted (length ids), Some (demo_job ids))"
  by (simp add: HandleConfirmBroadcast_def ConfirmBroadcast_guard_def demo_confirming_def
      demo_job_def)

theorem broadcast_accounting_witness:
  "(case run_broadcast (\<lambda>k u. k \<noteq> 1) (demo_job [11, 22, 33]) broadcast_init of
      (b', sent, failed, tot, out) \<Rightarrow>
        sent = 2 \<and> failed = 1 \<and> tot = 3 \<and> \<not> isActive b' \<and> attempts out = [11, 22, 33])
   \<and> (case run_broadcast (\<lambda>k u. True) (demo_job [11, 22, 33]) broadcast_init of
      (b', sent, failed, tot, out) \<Rightarrow> sent = 3 \<and> failed = 0 \<and> tot = 3)
   \<and> (case run_broadcast (\<lambda>k u. False) (demo_job [11, 22, 33]) broadcast_init of
      (b', sent, failed, tot, out) \<Rightarrow> sent = 0 \<and> failed = 3 \<and> tot = 3)
   \<and> (case run_broadcast (\<lambda>k u. k \<noteq> 1) (demo_job []) broadcast_init of
      (b', sent, failed, tot, out) \<Rightarrow> sent = 0 \<and> failed = 0 \<and> tot = 0)"
  using broadcast_accounting [OF demo_launch, of "[11, 22, 33]" "\<lambda>k u. k \<noteq> 1" broadcast_init]
        broadcast_accounting [OF demo_launch, of "[11, 22, 33]" "\<lambda>k u. True" broadcast_init]
        broadcast_accounting [OF demo_launch, of "[11, 22, 33]" "\<lambda>k u. False" broadcast_init]
        broadcast_accounting [OF demo_launch, of "[]" "\<lambda>k u. k \<noteq> 1" broadcast_init]
  by (simp add: run_broadcast_def demo_job_def payload_of_def demo_msg_def Let_def
      broadcast_init_def)

section \<open>At most one broadcast\<close>

lemma system_inv_init: "system_inv system_init"
  by (simp add: system_inv_def system_init_def broadcast_init_def active_jobs_def)

lemma system_inv_step: "system_inv s \<Longrightarrow> system_inv (system_step s e)"
proof (cases e)
  case (EvAdminBroadcast uid)
  then show "system_inv s \<Longrightarrow> ?thesis"
    by (auto simp: system_inv_def active_jobs_def HandleAdminBroadcast_def)
next
  case EvCancelBroadcast
  then show "system_inv s \<Longrightarrow> ?thesis"
    by (auto simp: system_inv_def active_jobs_def HandleCancelBroadcast_def)
next
  case (EvCapture uid m)
  then show "system_inv s \<Longrightarrow> ?thesis"
    by (auto simp: system_inv_def active_jobs_def BroadcastMessage_capture_def
        split: option.splits if_splits)
next
  case EvCaptureFailed
  then show "system_inv s \<Longrightarrow> ?thesis"
    by (auto simp: system_inv_def active_jobs_def BroadcastMessage_failed_def)
next
  case EvCaptureDone
  then show "system_inv s \<Longrightarrow> ?thesis"
    by (auto simp: system_inv_def active_jobs_def)
next
  case (EvConfirm uid)
  then show "system_inv s \<Longrightarrow> ?thesis"
    by (auto simp: system_inv_def active_jobs_def ConfirmBroadcast_guard_def
        split: option.splits if_splits)
next
  case EvConfirmAbort
  then show "system_inv s \<Longrightarrow> ?thesis"
    by (auto simp: system_inv_def active_jobs_def ConfirmBroadcast_abort_def)
next
  case EvSpawn
  then show "system_inv s \<Longrightarrow> ?thesis"
    by (auto simp: system_inv_def active_jobs_def)
next
  case EvSend
  then show "system_inv s \<Longrightarrow> ?thesis"
    by simp
next
  case EvFinish
  then show "system_inv s \<Longrightarrow> ?thesis"
    by (auto simp: system_inv_def active_jobs_def)
qed

lemma system_inv_run: "system_inv s \<Longrightarrow> system_inv (system_run s es)"
  by (induction es arbitrary: s) (simp_all add: system_inv_step)

lemma system_inv_reachable: "system_inv (system_run system_init es)"
  by (rule system_inv_run [OF system_inv_init])

text \<open>
  C2.  In every state \<open>s\<close> that a schedule of handler sections and goroutine steps
  reaches from the initial state, at most one broadcast is launched and unfinished, and
  the flag \<open>isActive\<close> is true exactly then.  While one is unfinished,
  \<open>HandleAdminBroadcast\<close> answers that a broadcast is already running, the guard of
  \<open>HandleConfirmBroadcast\<close> and the capture of \<open>HandleBroadcastMessage\<close> fail, and
  none of the three changes the state, so no second launch happens.  The guard of
  \<open>HandleConfirmBroadcast\<close> sets the flag in the section that checks it, and the final
  section of the fan-out clears it and leaves no job behind.
\<close>

theorem at_most_one_broadcast:
  "(let s = system_run system_init es in
      active_jobs s \<le> 1
      \<and> (isActive (bst s) \<longleftrightarrow> active_jobs s = 1)
      \<and> (active_jobs s = 1 \<longrightarrow>
            HandleAdminBroadcast (bst s) uid = (bst s, AlreadyRunning)
            \<and> HandleConfirmBroadcast (bst s) uid ids = (bst s, NoMessageToSend, None)
            \<and> system_step s (EvAdminBroadcast uid) = s
            \<and> system_step s (EvConfirm uid) = s
            \<and> system_step s (EvCapture uid m) = s)
      \<and> (fanning s = 1 \<longrightarrow>
            \<not> isActive (bst (system_step s EvFinish))
            \<and> active_jobs (system_step s EvFinish) = 0))
   \<and> (ConfirmBroadcast_guard b uid = Some (b1, msg) \<longrightarrow> isActive b1)"
proof -
  define s where "s = system_run system_init es"
  have inv: "system_inv s"
    unfolding s_def by (rule system_inv_reachable)
  have one: "active_jobs s \<le> 1" and flag: "isActive (bst s) \<longleftrightarrow> active_jobs s = 1"
    using inv by (simp_all add: system_inv_def)
  have quiet: "active_jobs s = 1 \<Longrightarrow> \<not> waitingMsg (bst s) \<and> \<not> waitingConfirm (bst s)"
    using inv by (auto simp: system_inv_def)
  have rejected: "active_jobs s = 1 \<longrightarrow>
      HandleAdminBroadcast (bst s) uid = (bst s, AlreadyRunning)
      \<and> HandleConfirmBroadcast (bst s) uid ids = (bst s, NoMessageToSend, None)
      \<and> system_step s (EvAdminBroadcast uid) = s
      \<and> system_step s (EvConfirm uid) = s
      \<and> system_step s (EvCapture uid m) = s"
    using flag quiet
    by (auto simp: HandleAdminBroadcast_def HandleConfirmBroadcast_def
        ConfirmBroadcast_guard_def BroadcastMessage_capture_def)
  have finish: "fanning s = 1 \<longrightarrow>
      \<not> isActive (bst (system_step s EvFinish)) \<and> active_jobs (system_step s EvFinish) = 0"
    using one by (auto simp: active_jobs_def)
  have mark: "ConfirmBroadcast_guard b uid = Some (b1, msg) \<longrightarrow> isActive b1"
    by (auto simp: ConfirmBroadcast_guard_def split: if_splits)
  show ?thesis
    using one flag rejected finish mark unfolding s_def [symmetric] Let_def by blast
qed

lemma demo_schedule_state:
  "system_run system_init demo_schedule =
     \<lparr>bst = \<lparr>isActive = True, waitingMsg = False, waitingConfirm = False, adminID = 7,
              message = Some demo_msg\<rparr>,
      capturing = 0, launching = 0, fanning = 1\<rparr>"
  by (simp add: demo_schedule_def system_init_def broadcast_init_def HandleAdminBroadcast_def
      BroadcastMessage_capture_def ConfirmBroadcast_guard_def)

theorem at_most_one_broadcast_witness:
  "active_jobs (system_run system_init demo_schedule) = 1
   \<and> fanning (system_run system_init demo_schedule) = 1
   \<and> isActive (bst (system_run system_init demo_schedule))
   \<and> HandleAdminBroadcast (bst (system_run system_init demo_schedule)) 8 =
        (bst (system_run system_init demo_schedule), AlreadyRunning)
   \<and> system_step (system_run system_init demo_schedule) (EvConfirm 7) =
        system_run system_init demo_schedule
   \<and> \<not> isActive (bst (system_step (system_run system_init demo_schedule) EvFinish))
   \<and> ConfirmBroadcast_guard demo_confirming 7 =
        Some (demo_confirming\<lparr>waitingConfirm := False, isActive := True\<rparr>, demo_msg)
   \<and> isActive (demo_confirming\<lparr>waitingConfirm := False, isActive := True\<rparr>)"
  using at_most_one_broadcast [where es = demo_schedule and uid = 8 and ids = "Some [11]"
      and m = demo_msg and b = demo_confirming and msg = demo_msg
      and ?b1.0 = "demo_confirming\<lparr>waitingConfirm := False, isActive := True\<rparr>"]
    at_most_one_broadcast [where es = demo_schedule and uid = 7 and ids = "Some [11]"
      and m = demo_msg and b = demo_confirming and msg = demo_msg
      and ?b1.0 = "demo_confirming\<lparr>waitingConfirm := False, isActive := True\<rparr>"]
  by (simp add: demo_schedule_state active_jobs_def ConfirmBroadcast_guard_def
      demo_confirming_def Let_def)

section \<open>The listing of the ticket registry\<close>

lemma ticket_less_asym: "ticket_less a b \<Longrightarrow> \<not> ticket_less b a"
  by (cases "Status a"; cases "Status b") (auto simp: ticket_less_def)

lemma ticket_less_cotrans:
  "\<not> ticket_less a b \<Longrightarrow> \<not> ticket_less b c \<Longrightarrow> \<not> ticket_less a c"
  by (cases "Status a"; cases "Status b"; cases "Status c") (auto simp: ticket_less_def)

lemma not_ticket_less_listed: "\<not> ticket_less b a \<longleftrightarrow> listed_before a b"
  by (cases "Status a"; cases "Status b") (auto simp: ticket_less_def listed_before_def)

lemma mset_sink: "mset (sink lt x before) = add_mset x (mset before)"
  by (induction before) simp_all

lemma set_sink: "set (sink lt x before) = insert x (set before)"
  by (induction before) auto

lemma sorted_sink:
  "sorted_wrt (\<lambda>a b. \<not> ticket_less a b) before \<Longrightarrow>
   sorted_wrt (\<lambda>a b. \<not> ticket_less a b) (sink ticket_less x before)"
proof (induction before)
  case Nil
  then show ?case by simp
next
  case (Cons y before)
  show ?case
  proof (cases "ticket_less x y")
    case True
    with Cons show ?thesis
      by (auto simp: set_sink dest: ticket_less_asym)
  next
    case False
    with Cons.prems show ?thesis
      using ticket_less_cotrans [OF False] by auto
  qed
qed

lemma mset_fold_sink: "mset (fold (sink lt) xs acc) = mset xs + mset acc"
  by (induction xs arbitrary: acc) (simp_all add: mset_sink)

lemma sorted_fold_sink:
  "sorted_wrt (\<lambda>a b. \<not> ticket_less a b) acc \<Longrightarrow>
   sorted_wrt (\<lambda>a b. \<not> ticket_less a b) (fold (sink ticket_less) xs acc)"
  by (induction xs arbitrary: acc) (simp_all add: sorted_sink)

lemma insertionSort_sorts: "sorts_by ticket_less insertionSort"
proof -
  have "sorted_wrt (\<lambda>a b. \<not> ticket_less b a) (rev (fold (sink ticket_less) xs []))" for xs
    using sorted_fold_sink [of "[]" xs] by (simp add: sorted_wrt_rev)
  then show ?thesis
    by (simp add: sorts_by_def insertionSort_def mset_fold_sink)
qed

text \<open>
  C10.  For any registry, any order in which \<open>range\<close> visits its keys, and any
  \<open>sort.Slice\<close> that keeps its promise for the comparison function of the listing:
  the listing holds the ticket of every tracked actor exactly once, every waiting
  ticket stands before every replied one, and tickets of equal status stand in
  ascending order of their last activity.
\<close>

theorem GetAllTickets_sorted:
  assumes "sorts_by ticket_less sortSlice"
    and "distinct keys" and "set keys = dom (tickets t)"
  shows "mset (GetAllTickets sortSlice keys t) =
           image_mset (\<lambda>k. the (tickets t k)) (mset_set (dom (tickets t)))
    \<and> sorted_wrt listed_before (GetAllTickets sortSlice keys t)"
proof -
  have keys: "mset keys = mset_set (dom (tickets t))"
    using assms(2,3) by (metis mset_set_set)
  have "mset (GetAllTickets sortSlice keys t) = image_mset (\<lambda>k. the (tickets t k)) (mset keys)"
    using assms(1) by (simp add: GetAllTickets_def sorts_by_def)
  then have perm: "mset (GetAllTickets sortSlice keys t) =
      image_mset (\<lambda>k. the (tickets t k)) (mset_set (dom (tickets t)))"
    by (simp only: keys)
  have "sorted_wrt (\<lambda>a b. \<not> ticket_less b a) (GetAllTickets sortSlice keys t)"
    using assms(1) by (simp add: GetAllTickets_def sorts_by_def)
  then have "sorted_wrt listed_before (GetAllTickets sortSlice keys t)"
    by (simp add: not_ticket_less_listed [abs_def])
  with perm show ?thesis by simp
qed

lemma demo_tracker_tickets:
  "tickets demo_tracker =
     [1 \<mapsto> \<lparr>UserID = 1, Username = ''ann'', LastMessageTime = 10, Status = StatusWaiting,
             GroupMessageID = 0, MessageCount = 1\<rparr>,
      2 \<mapsto> \<lparr>UserID = 2, Username = ''bob'', LastMessageTime = 5, Status = StatusReplied,
             GroupMessageID = 0, MessageCount = 1\<rparr>,
      3 \<mapsto> \<lparr>UserID = 3, Username = ''cy'', LastMessageTime = 7, Status = StatusWaiting,
             GroupMessageID = 0, MessageCount = 1\<rparr>]"
  by (auto simp: demo_tracker_def AddOrUpdateTicket_def SetTicketReplied_def tracker_init_def
      fun_upd_def)

theorem GetAllTickets_sorted_witness:
  "sorts_by ticket_less insertionSort
   \<and> distinct [1, 2, 3 :: int] \<and> set [1, 2, 3] = dom (tickets demo_tracker)
   \<and> map UserID (GetAllTickets insertionSort [1, 2, 3] demo_tracker) = [3, 1, 2]
   \<and> map Status (GetAllTickets insertionSort [1, 2, 3] demo_tracker) =
        [StatusWaiting, StatusWaiting, StatusReplied]
   \<and> sorted_wrt listed_before (GetAllTickets insertionSort [1, 2, 3] demo_tracker)"
proof -
  have keys: "set [1, 2, 3] = dom (tickets demo_tracker)"
    by (auto simp: demo_tracker_tickets)
  have listing: "map UserID (GetAllTickets insertionSort [1, 2, 3] demo_tracker) = [3, 1, 2]
    \<and> map Status (GetAllTickets insertionSort [1, 2, 3] demo_tracker) =
        [StatusWaiting, StatusWaiting, StatusReplied]"
    by (simp add: GetAllTickets_def demo_tracker_tickets insertionSort_def ticket_less_def)
  show ?thesis
    using GetAllTickets_sorted [OF insertionSort_sorts _ keys] insertionSort_sorts keys listing
    by simp
qed

section \<open>The tag of the support bridge\<close>

lemma dec_not_Nil: "dec n \<noteq> []"
  by (subst dec.simps) simp

lemma is_digit_char: "0 \<le> k \<Longrightarrow> k < 10 \<Longrightarrow> is_digit (char_of (48 + k :: int))"
  by (simp add: is_digit_def)

lemma digit_val_char: "0 \<le> k \<Longrightarrow> k < 10 \<Longrightarrow> digit_val (char_of (48 + k :: int)) = k"
  by (simp add: digit_val_def)

lemma dec_digits: "0 \<le> n \<Longrightarrow> list_all is_digit (dec n)"
proof (induction n rule: dec.induct)
  case (1 n)
  show ?case
  proof (cases "n < 10")
    case True
    with "1.prems" show ?thesis
      by (subst dec.simps) (simp add: is_digit_char)
  next
    case False
    with "1.prems" have "list_all is_digit (dec (n div 10))"
      by (intro "1.IH") simp_all
    moreover have "is_digit (char_of (48 + n mod 10))"
      by (rule is_digit_char) simp_all
    ultimately show ?thesis
      using False by (subst dec.simps) simp
  qed
qed

lemma parse_digits_snoc: "parse_digits (ds @ [c]) = 10 * parse_digits ds + digit_val c"
  by (simp add: parse_digits_def)

lemma parse_digits_dec: "0 \<le> n \<Longrightarrow> parse_digits (dec n) = n"
proof (induction n rule: dec.induct)
  case (1 n)
  show ?case
  proof (cases "n < 10")
    case True
    with "1.prems" show ?thesis
      by (subst dec.simps) (simp add: parse_digits_def digit_val_char)
  next
    case False
    with "1.prems" have "parse_digits (dec (n div 10)) = n div 10"
      by (intro "1.IH") simp_all
    moreover have "digit_val (char_of (48 + n mod 10)) = n mod 10"
      by (rule digit_val_char) simp_all
    ultimately show ?thesis
      using False by (subst dec.simps) (simp add: parse_digits_snoc)
  qed
qed

lemma ParseInt_dec: "0 \<le> n \<Longrightarrow> n < 2 ^ 63 \<Longrightarrow> ParseInt (dec n) = Some n"
proof -
  assume n: "0 \<le> n" "n < 2 ^ 63"
  have digits: "list_all is_digit (dec n)"
    using n(1) by (rule dec_digits)
  then have "is_digit (hd (dec n))"
    using dec_not_Nil [of n] by (cases "dec n") simp_all
  then have "hd (dec n) \<noteq> CHR ''+''" "hd (dec n) \<noteq> CHR ''-''"
    by (auto simp: is_digit_def)
  then show ?thesis
    using digits n dec_not_Nil [of n] by (simp add: ParseInt_def parse_digits_dec)
qed

lemma find_user_tag_here:
  assumes "list_all is_digit ds" "ds \<noteq> []" "rest = [] \<or> \<not> is_digit (hd rest)"
  shows "find_user_tag (''#user_'' @ ds @ rest) = Some ds"
proof -
  have "takeWhile is_digit (ds @ rest) = ds"
    using assms(1,3) by (cases rest) (simp_all add: list_all_iff)
  then show ?thesis
    using assms(2) by simp
qed

lemma find_user_tag_skip:
  "CHR ''#'' \<notin> set pre \<Longrightarrow> find_user_tag (pre @ s) = find_user_tag s"
  by (induction pre) auto

lemma extract_from_header:
  assumes "0 < userID" "userID < 2 ^ 63"
  shows "extractUserIDFromTicket (ticket_header userID usernameStr balanceText @ content) = userID"
proof -
  define rest where "rest = [CHR 0x0A] @ person_emoji @ '' '' @ usernameStr @ '' | ''
     @ money_emoji @ '' '' @ balanceText @ '' '' @ ruble_sign @ [CHR 0x0A] @ header_rule
     @ [CHR 0x0A] @ content"
  have shape: "ticket_header userID usernameStr balanceText @ content =
      (ticket_emoji @ '' '') @ (''#user_'' @ dec userID @ rest)"
    using assms(1) by (simp add: ticket_header_def FormatInt_def rest_def)
  have "find_user_tag ((ticket_emoji @ '' '') @ (''#user_'' @ dec userID @ rest)) =
      find_user_tag (''#user_'' @ dec userID @ rest)"
    by (rule find_user_tag_skip) (simp add: ticket_emoji_def)
  also have "\<dots> = Some (dec userID)"
    using assms(1) by (intro find_user_tag_here dec_digits dec_not_Nil)
      (simp_all add: rest_def is_digit_def)
  finally show ?thesis
    using assms by (simp add: extractUserIDFromTicket_def shape ParseInt_dec)
qed

lemma ticket_header_not_Nil: "ticket_header userID usernameStr balanceText @ content \<noteq> []"
  by (simp add: ticket_header_def ticket_emoji_def)

lemma reply_target_of_text:
  "extractUserIDFromTicket t = u \<Longrightarrow> u \<noteq> 0 \<Longrightarrow> t \<noteq> [] \<Longrightarrow>
     reply_target (Message t c p d v vo st os rt) = u"
  by (simp add: reply_target_def)

lemma reply_target_of_caption:
  "extractUserIDFromTicket c = u \<Longrightarrow> u \<noteq> 0 \<Longrightarrow> c \<noteq> [] \<Longrightarrow>
     reply_target (Message [] c p d v vo st os rt) = u"
  by (simp add: reply_target_def)

text \<open>
  C7, as amended.  For every actor id that is positive (and an \<open>int64\<close>), whatever the
  user sent (text, photo, document or voice), the first post that
  \<open>HandleSupportUserMessage\<close> puts into the staff channel carries the header, and the
  search of \<open>handleSupportGroupMessage\<close> recovers exactly that id from it, so a staff
  reply to that post is delivered to that actor.  When none of the four places searched
  yields a nonzero id, the reply is dropped: nothing is sent and the registry is
  unchanged.
\<close>

theorem support_tag_round_trip:
  assumes "0 < userID" and "userID < 2 ^ 63"
  shows "fst (HandleSupportUserMessage userID username balanceText m True tr now) \<noteq> []
    \<and> reply_target (hd (fst (HandleSupportUserMessage userID username balanceText m True tr now)))
        = userID
    \<and> (ReplyTo reply =
          Some (hd (fst (HandleSupportUserMessage userID username balanceText m True tr now)))
        \<longrightarrow> fst (handleSupportGroupMessage reply True tr2) =
              Delivered userID (staff_payload reply))
    \<and> (ReplyTo reply = Some other \<and> reply_target other = 0
        \<longrightarrow> handleSupportGroupMessage reply sendOK tr2 = (Dropped, tr2))"
proof -
  let ?posts = "fst (HandleSupportUserMessage userID username balanceText m True tr now)"
  have ex: "extractUserIDFromTicket (ticket_header userID un balanceText @ content) = userID"
    for un content
    using assms by (rule extract_from_header)
  have nz: "userID \<noteq> 0"
    using assms(1) by simp
  have posts: "?posts \<noteq> []"
    by (simp add: HandleSupportUserMessage_def Let_def)
  have target: "reply_target (hd ?posts) = userID"
    by (simp add: HandleSupportUserMessage_def Let_def text_post_def
        reply_target_of_text [OF ex nz ticket_header_not_Nil]
        reply_target_of_caption [OF ex nz ticket_header_not_Nil])
  have delivered: "ReplyTo reply = Some (hd ?posts) \<longrightarrow>
      fst (handleSupportGroupMessage reply True tr2) = Delivered userID (staff_payload reply)"
    using target nz by (simp add: handleSupportGroupMessage_def Let_def)
  have dropped: "ReplyTo reply = Some other \<and> reply_target other = 0 \<longrightarrow>
      handleSupportGroupMessage reply sendOK tr2 = (Dropped, tr2)"
    by (simp add: handleSupportGroupMessage_def Let_def)
  from posts target delivered dropped show ?thesis
    by blast
qed

lemma untagged_post_target: "reply_target (text_post ''thanks'') = 0"
  by code_simp

theorem support_tag_round_trip_witness:
  "(0::int) < 555 \<and> (555::int) < 2 ^ 63
   \<and> reply_target (hd (fst (HandleSupportUserMessage 555 ''bob'' ''0'' demo_msg True None 0))) = 555
   \<and> fst (handleSupportGroupMessage
        (Message ''ok'' [] None None None None None None
           (Some (hd (fst (HandleSupportUserMessage 555 ''bob'' ''0'' demo_msg True None 0)))))
        True None) =
       Delivered 555 (ReplyText (support_reply_prefix @ ''ok''))
   \<and> reply_target (text_post ''thanks'') = 0
   \<and> handleSupportGroupMessage
        (Message ''ok'' [] None None None None None None (Some (text_post ''thanks'')))
        True None = (Dropped, None)"
proof -
  have pos: "(0::int) < 555" and small: "(555::int) < 2 ^ 63"
    by simp_all
  note rt = support_tag_round_trip [OF pos small, of "''bob''" "''0''" demo_msg None 0]
  show ?thesis
    using rt [of "Message ''ok'' [] None None None None None None
                   (Some (hd (fst (HandleSupportUserMessage 555 ''bob'' ''0'' demo_msg True None 0))))"
                 None "text_post ''thanks''" True]
          rt [of "Message ''ok'' [] None None None None None None (Some (text_post ''thanks''))"
                 None "text_post ''thanks''" True]
          untagged_post_target
    by (simp add: staff_payload_def)
qed

lemma negative_id_lost:
  "reply_target (hd (fst (HandleSupportUserMessage (- 5) ''bob'' ''0'' demo_msg True None 0))) = 0"
  by code_simp

text \<open>
  The claim as stated, for every actor id, fails for an id that is not positive: the
  header of actor \<open>-5\<close> reads \<open>#user_-5\<close>, which the pattern does not match.
\<close>

theorem support_tag_round_trip_counterexample:
  "\<not> (\<forall>userID.
        reply_target (hd (fst (HandleSupportUserMessage userID ''bob'' ''0'' demo_msg True None 0)))
          = userID)"
proof
  assume "\<forall>userID.
        reply_target (hd (fst (HandleSupportUserMessage userID ''bob'' ''0'' demo_msg True None 0)))
          = userID"
  then have "reply_target (hd (fst (HandleSupportUserMessage (- 5) ''bob'' ''0'' demo_msg True None 0)))
      = - 5"
    by blast
  with negative_id_lost show False
    by simp
qed

section \<open>Compensation after a failed provisioning\<close>

lemma find_append_new: "find P xs = None \<Longrightarrow> P x \<Longrightarrow> find P (xs @ [x]) = Some x"
  by (induction xs) (simp_all split: if_splits)

lemma find_Some_holds: "find P xs = Some x \<Longrightarrow> P x \<and> x \<in> set xs"
  by (induction xs) (auto split: if_splits)

lemma find_after_rename:
  "find (\<lambda>u. TelegramID u = tg)
     (map (\<lambda>v. if TelegramID v = tg then v\<lparr>UserName := name\<rparr> else v) xs) =
   map_option (\<lambda>v. v\<lparr>UserName := name\<rparr>) (find (\<lambda>u. TelegramID u = tg) xs)"
  by (induction xs) simp_all

lemma GetOrCreateUser_found:
  "db_GetOrCreateUser st tg name = (st1, user) \<Longrightarrow> db_GetUserByTelegramID st1 tg = Some user"
  by (auto simp: db_GetOrCreateUser_def db_GetUserByTelegramID_def find_after_rename Let_def
      find_append_new split: option.splits)

lemma deduct_users:
  "svc_DeductBalance env st1 uid p = Some st2 \<Longrightarrow>
     users st2 = map (\<lambda>v. if ID v = uid then v\<lparr>Balance := Balance v - p\<rparr> else v) (users st1)
     \<and> subscriptions st2 = subscriptions st1 \<and> products st2 = products st1
     \<and> transactions st2 =
         transactions st1 @ [\<lparr>TxUserID = uid, Amount = - p, TxType = ''purchase''\<rparr>]"
  by (auto simp: svc_DeductBalance_def reach_def db_DeductBalance_def
      split: if_splits option.splits)

lemma find_after_deduct:
  "find (\<lambda>u. TelegramID u = tg)
     (map (\<lambda>v. if ID v = uid then v\<lparr>Balance := Balance v - p\<rparr> else v) xs) =
   map_option (\<lambda>v. if ID v = uid then v\<lparr>Balance := Balance v - p\<rparr> else v)
     (find (\<lambda>u. TelegramID u = tg) xs)"
  by (induction xs) simp_all

lemma credit_after_deduct:
  assumes found: "db_GetUserByTelegramID st1 tg = Some user"
    and deduct: "svc_DeductBalance env st1 (ID user) p = Some st2"
    and up: "\<not> down env AtCreditGetUser" "\<not> down env AtCreditUpdate"
  shows "users (credit_back env st2 tg p) = users st1
    \<and> subscriptions (credit_back env st2 tg p) = subscriptions st1
    \<and> transactions (credit_back env st2 tg p) =
        transactions st1 @ [\<lparr>TxUserID = ID user, Amount = - p, TxType = ''purchase''\<rparr>,
                            \<lparr>TxUserID = ID user, Amount = p, TxType = ''manual_deposit''\<rparr>]"
proof -
  note d = deduct_users [OF deduct]
  have look: "db_GetUserByTelegramID st2 tg = Some (user\<lparr>Balance := Balance user - p\<rparr>)"
    using found d by (simp add: db_GetUserByTelegramID_def find_after_deduct)
  have "user\<lparr>Balance := Balance user - p\<rparr> \<in> set (users st2)"
    using look by (auto simp: db_GetUserByTelegramID_def dest: find_Some_holds)
  then have "\<exists>x \<in> set (users st2). ID x = ID user"
    by (rule bexI [rotated]) simp
  then have by_id: "db_GetUserByID st2 (ID user) \<noteq> None"
    by (auto simp: db_GetUserByID_def find_None_iff)
  have same: "map (\<lambda>u. if ID u = ID user then u\<lparr>Balance := Balance u + p\<rparr> else u)
      (map (\<lambda>v. if ID v = ID user then v\<lparr>Balance := Balance v - p\<rparr> else v) (users st1)) = users st1"
    by (induction "users st1") (auto simp: map_idI)
  show ?thesis
    using look by_id up d same
    by (auto simp: credit_back_def svc_AddUserBalance_def reach_def db_AddUserBalance_def)
qed


lemma GetOrCreateUser_tg:
  "db_GetOrCreateUser st tg name = (st1, user) \<Longrightarrow> TelegramID user = tg"
  by (auto simp: db_GetOrCreateUser_def db_GetUserByTelegramID_def Let_def
      split: option.splits dest: find_Some_holds)

lemma GetOrCreateUser_subscriptions:
  "db_GetOrCreateUser st tg name = (st1, user) \<Longrightarrow> subscriptions st1 = subscriptions st"
  by (auto simp: db_GetOrCreateUser_def Let_def split: option.splits)

lemma credit_back_subscriptions: "subscriptions (credit_back env st tg p) = subscriptions st"
  by (auto simp: credit_back_def svc_AddUserBalance_def reach_def db_AddUserBalance_def
      split: option.splits if_splits)

lemma pay_refund_path:
  assumes "HandlePayWithBalance env sale st sender username dat now =
             (st', PayCreateErrorRefunded, calls)"
  obtains st1 user st2 price pid where
    "db_GetOrCreateUser st sender username = (st1, user)"
    "svc_DeductBalance env st1 (ID user) price = Some st2"
    "svc_CreateSubscriptionSimple env st2 (ID user) pid
       (AddDate env now (ParseInt_value (Split_colon dat ! 1)) 0) now = None"
    "st' = credit_back env st2 (TelegramID user) price"
    "calls = [CallDeduct (ID user) price, CallCreate (ID user) pid,
              CallCredit (TelegramID user) price]"
  using assms
  by (auto simp: HandlePayWithBalance_def Let_def reach_def
      split: if_splits option.splits prod.splits)

lemma extend_refund_path:
  assumes "HandleExtendPay env sale st sender username dat now =
             (st', PayExtendErrorRefunded, calls)"
  obtains st1 user st2 price sid months where
    "db_GetOrCreateUser st sender username = (st1, user)"
    "svc_DeductBalance env st1 (ID user) price = Some st2"
    "svc_ExtendSubscription env st2 sid months now = None"
    "st' = credit_back env st2 (TelegramID user) price"
    "calls = [CallDeduct (ID user) price, CallExtend sid months,
              CallCredit (TelegramID user) price]"
  using assms
  by (auto simp: HandleExtendPay_def Let_def reach_def
      split: if_splits option.splits prod.splits)


text \<open>
  What the compensation achieves when the store applies it.  Whenever
  \<open>HandlePayWithBalance\<close> or \<open>HandleExtendPay\<close> surfaces the provisioning error,
  it has debited the balance, has then tried to create or extend the subscription, and
  has last of all requested a credit of the same amount for the same user; the
  subscription table is as it was; and when the credit reaches the store, the user
  table is as it was before the debit.
\<close>

lemma compensating_credit:
  "(HandlePayWithBalance env sale st sender username dat now =
      (st', PayCreateErrorRefunded, calls) \<longrightarrow>
      (\<exists>uid pid price.
          calls = [CallDeduct uid price, CallCreate uid pid, CallCredit sender price])
      \<and> subscriptions st' = subscriptions st
      \<and> (\<not> down env AtCreditGetUser \<and> \<not> down env AtCreditUpdate \<longrightarrow>
            users st' = users (fst (db_GetOrCreateUser st sender username))))
   \<and> (HandleExtendPay env sale st sender username dat now =
      (st', PayExtendErrorRefunded, calls) \<longrightarrow>
      (\<exists>uid sid months price.
          calls = [CallDeduct uid price, CallExtend sid months, CallCredit sender price])
      \<and> subscriptions st' = subscriptions st
      \<and> (\<not> down env AtCreditGetUser \<and> \<not> down env AtCreditUpdate \<longrightarrow>
            users st' = users (fst (db_GetOrCreateUser st sender username))))"
proof (intro conjI impI)
  assume run: "HandlePayWithBalance env sale st sender username dat now =
      (st', PayCreateErrorRefunded, calls)"
  from run obtain st1 user st2 price pid where
    goc: "db_GetOrCreateUser st sender username = (st1, user)"
    and ded: "svc_DeductBalance env st1 (ID user) price = Some st2"
    and st': "st' = credit_back env st2 (TelegramID user) price"
    and calls: "calls = [CallDeduct (ID user) price, CallCreate (ID user) pid,
                 CallCredit (TelegramID user) price]"
    by (rule pay_refund_path)
  note tg = GetOrCreateUser_tg [OF goc]
  show "\<exists>uid pid price.
      calls = [CallDeduct uid price, CallCreate uid pid, CallCredit sender price]"
    using calls tg by blast
  show "subscriptions st' = subscriptions st"
    using st' deduct_users [OF ded] GetOrCreateUser_subscriptions [OF goc]
    by (simp add: credit_back_subscriptions)
  assume "\<not> down env AtCreditGetUser \<and> \<not> down env AtCreditUpdate"
  then show "users st' = users (fst (db_GetOrCreateUser st sender username))"
    using credit_after_deduct [OF GetOrCreateUser_found [OF goc] ded] st' tg goc by simp
next
  assume run: "HandleExtendPay env sale st sender username dat now =
      (st', PayExtendErrorRefunded, calls)"
  from run obtain st1 user st2 price sid months where
    goc: "db_GetOrCreateUser st sender username = (st1, user)"
    and ded: "svc_DeductBalance env st1 (ID user) price = Some st2"
    and st': "st' = credit_back env st2 (TelegramID user) price"
    and calls: "calls = [CallDeduct (ID user) price, CallExtend sid months,
                 CallCredit (TelegramID user) price]"
    by (rule extend_refund_path)
  note tg = GetOrCreateUser_tg [OF goc]
  show "\<exists>uid sid months price.
      calls = [CallDeduct uid price, CallExtend sid months, CallCredit sender price]"
    using calls tg by blast
  show "subscriptions st' = subscriptions st"
    using st' deduct_users [OF ded] GetOrCreateUser_subscriptions [OF goc]
    by (simp add: credit_back_subscriptions)
  assume "\<not> down env AtCreditGetUser \<and> \<not> down env AtCreditUpdate"
  then show "users st' = users (fst (db_GetOrCreateUser st sender username))"
    using credit_after_deduct [OF GetOrCreateUser_found [OF goc] ded] st' tg goc by simp
qed

lemma demo_pay_refunded:
  "HandlePayWithBalance (demo_env vpn_refuses (\<lambda>site. False)) demo_no_sale demo_store
     100 ''ann'' ''1:1'' 5 =
   (demo_refunded_store, PayCreateErrorRefunded,
    [CallDeduct 1 450, CallCreate 1 1, CallCredit 100 450])"
  by code_simp

lemma demo_extend_refunded:
  "HandleExtendPay (demo_env vpn_grants (\<lambda>site. site = AtExtendUpdate)) demo_no_sale demo_store
     100 ''ann'' ''1:1'' 5 =
   (demo_refunded_store, PayExtendErrorRefunded,
    [CallDeduct 1 450, CallExtend 1 1, CallCredit 100 450])"
  by code_simp


lemma compensating_credit_example:
  "HandlePayWithBalance (demo_env vpn_refuses (\<lambda>site. False)) demo_no_sale demo_store
      100 ''ann'' ''1:1'' 5 =
     (demo_refunded_store, PayCreateErrorRefunded,
      [CallDeduct 1 450, CallCreate 1 1, CallCredit 100 450])
   \<and> HandleExtendPay (demo_env vpn_grants (\<lambda>site. site = AtExtendUpdate)) demo_no_sale
      demo_store 100 ''ann'' ''1:1'' 5 =
     (demo_refunded_store, PayExtendErrorRefunded,
      [CallDeduct 1 450, CallExtend 1 1, CallCredit 100 450])
   \<and> \<not> down (demo_env vpn_refuses (\<lambda>site. False)) AtCreditGetUser
   \<and> \<not> down (demo_env vpn_refuses (\<lambda>site. False)) AtCreditUpdate
   \<and> \<not> down (demo_env vpn_grants (\<lambda>site. site = AtExtendUpdate)) AtCreditGetUser
   \<and> \<not> down (demo_env vpn_grants (\<lambda>site. site = AtExtendUpdate)) AtCreditUpdate
   \<and> subscriptions demo_refunded_store = subscriptions demo_store
   \<and> users demo_refunded_store = users demo_store
   \<and> balance_of demo_refunded_store 100 = Some 1000"
  using compensating_credit [of "demo_env vpn_refuses (\<lambda>site. False)" demo_no_sale demo_store
      100 "''ann''" "''1:1''" 5 demo_refunded_store
      "[CallDeduct 1 450, CallCreate 1 1, CallCredit 100 450]"]
    compensating_credit [of "demo_env vpn_grants (\<lambda>site. site = AtExtendUpdate)" demo_no_sale
      demo_store 100 "''ann''" "''1:1''" 5 demo_refunded_store
      "[CallDeduct 1 450, CallExtend 1 1, CallCredit 100 450]"]
    demo_pay_refunded demo_extend_refunded
  by (simp add: demo_env_def demo_refunded_store_def demo_store_def balance_of_def
      db_GetUserByTelegramID_def)

text \<open>
  C9 at two failing inputs.  The claim asks that the balance be unchanged overall
  whenever the debit succeeded and the provisioning failed, and the handlers say so:
  their comment reads "return the money on error" and their answer "the funds were
  returned to the balance".  But both drop the error of \<open>AddUserBalance\<close>.  User 100
  holds 1000 and pays 450.  In the purchase the backend refuses the account and the
  store then fails at the credit; in the extension the store fails at the update of the
  subscription and again at the credit.  Either handler has debited and has requested
  the credit as its last call, no subscription has changed, the answer is that the funds
  were returned, and the balance is 550.
\<close>

theorem credit_error_dropped:
  "balance_of demo_store 100 = Some 1000
   \<and> (case HandlePayWithBalance (demo_env vpn_refuses (\<lambda>site. site = AtCreditUpdate))
              demo_no_sale demo_store 100 ''ann'' ''1:1'' 5
       of (st', answer, calls) \<Rightarrow>
            answer = PayCreateErrorRefunded \<and> balance_of st' 100 = Some 550
            \<and> subscriptions st' = subscriptions demo_store
            \<and> calls = [CallDeduct 1 450, CallCreate 1 1, CallCredit 100 450])
   \<and> (case HandleExtendPay
              (demo_env vpn_grants (\<lambda>site. site = AtExtendUpdate \<or> site = AtCreditUpdate))
              demo_no_sale demo_store 100 ''ann'' ''1:1'' 5
       of (st', answer, calls) \<Rightarrow>
            answer = PayExtendErrorRefunded \<and> balance_of st' 100 = Some 550
            \<and> subscriptions st' = subscriptions demo_store
            \<and> calls = [CallDeduct 1 450, CallExtend 1 1, CallCredit 100 450])"
  by code_simp

section \<open>Precedence of the text router\<close>

text \<open>
  C4, as amended.  For a text event from an actor who is at once in support mode and
  in promo entry: from the staff channel it goes to the staff-reply bridge; from any
  other chat the text of a non-staff actor goes to the promo code submission, whose
  check comes first, and the text of a staff actor goes to support-mode forwarding.
\<close>

theorem support_promo_precedence:
  assumes "IsUserInSupportMode h userID" and "IsUserInPromoMode h userID"
  shows "OnText h userID chatID =
     (if chatID = Some (supportGroupID h) then ToSupportGroupMessage
      else if isAdmin h userID then ToSupportUserMessage
      else ToUserPromoInput)"
  using assms by (simp add: OnText_def)

lemma both_modes_on:
  "IsUserInSupportMode (both_modes actor) actor \<and> IsUserInPromoMode (both_modes actor) actor"
  by (simp add: both_modes_def HandleCreateTicket_def HandlePromoEnter_def
      SetUserSupportMode_def SetUserPromoMode_def IsUserInSupportMode_def IsUserInPromoMode_def)

theorem support_promo_precedence_witness:
  "IsUserInSupportMode (both_modes 7) 7 \<and> IsUserInPromoMode (both_modes 7) 7
   \<and> OnText (both_modes 7) 7 (Some 7) = ToSupportUserMessage
   \<and> IsUserInSupportMode (both_modes 42) 42 \<and> IsUserInPromoMode (both_modes 42) 42
   \<and> OnText (both_modes 42) 42 (Some 42) = ToUserPromoInput
   \<and> OnText (both_modes 42) 42 (Some (- 1003561858830)) = ToSupportGroupMessage"
  using support_promo_precedence [of "both_modes 7" 7 "Some 7"]
    support_promo_precedence [of "both_modes 42" 42 "Some 42"]
    support_promo_precedence [of "both_modes 42" 42 "Some (- 1003561858830)"]
    both_modes_on [of 7] both_modes_on [of 42]
  by (simp add: isAdmin_def both_modes_def HandleCreateTicket_def HandlePromoEnter_def
      SetUserSupportMode_def SetUserPromoMode_def bot_init_def)

text \<open>
  The claim as stated fails for a non-staff actor: user 42, in both modes after
  \<open>HandlePromoEnter\<close> and \<open>HandleCreateTicket\<close>, writes in the private chat and the
  router selects the promo code submission.
\<close>

theorem support_promo_precedence_counterexample:
  "IsUserInSupportMode (both_modes 42) 42 \<and> IsUserInPromoMode (both_modes 42) 42
   \<and> OnText (both_modes 42) 42 (Some 42) \<noteq> ToSupportUserMessage"
  using both_modes_on [of 42]
  by (simp add: OnText_def isAdmin_def both_modes_def HandleCreateTicket_def HandlePromoEnter_def
      SetUserSupportMode_def SetUserPromoMode_def bot_init_def IsUserInPromoMode_def)

section \<open>A text that is not a number in the key issuance flow\<close>

lemma HandleIssueUserID_invalid:
  "sessions sender = Some session \<Longrightarrow> step session = 3 \<Longrightarrow> ParseInt (TrimSpace input) = None \<Longrightarrow>
     HandleIssueUserID env sessions st sender input now notifyOK =
       (sessions(sender := None), st, [IssueInvalidTelegramID])"
  by (simp add: HandleIssueUserID_def)

lemma demo_issue_flow_session:
  "demo_issue_flow 555 = Some \<lparr>step = 3, productID = 1, days = 30\<rparr>"
proof -
  have "ParseInt ''1'' = Some 1" and "ParseInt ''30'' = Some 30"
    by code_simp+
  then show ?thesis
    by (simp add: demo_issue_flow_def HandleIssueStart_def HandleIssueProduct_def
        HandleIssueDays_def)
qed

lemma abc_not_a_number: "ParseInt (TrimSpace ''abc'') = None"
  by code_simp

text \<open>
  C3 at its scenario.  Actor 555 has entered the flow, selected product 1 and 30 days,
  and the flow is at step 3.  The text \<open>abc\<close> is answered with the prompt for a valid
  id and no subscription is created, but the slot of the actor is removed: the router,
  which handed this text to \<open>HandleIssueUserID\<close>, hands the next text of the actor to
  nothing.
\<close>

theorem issue_invalid_id_removes_slot:
  "demo_issue_flow 555 = Some \<lparr>step = 3, productID = 1, days = 30\<rparr>
   \<and> OnText ((bot_init [555] (- 1003561858830))\<lparr>issueSessions := demo_issue_flow\<rparr>) 555 (Some 555)
       = ToIssueUserID
   \<and> snd (HandleIssueUserID (demo_env vpn_grants (\<lambda>site. False)) demo_issue_flow demo_store
            555 ''abc'' 5 True) = (demo_store, [IssueInvalidTelegramID])
   \<and> fst (HandleIssueUserID (demo_env vpn_grants (\<lambda>site. False)) demo_issue_flow demo_store
            555 ''abc'' 5 True) 555 = None
   \<and> OnText ((bot_init [555] (- 1003561858830))
         \<lparr>issueSessions := fst (HandleIssueUserID (demo_env vpn_grants (\<lambda>site. False))
                                   demo_issue_flow demo_store 555 ''abc'' 5 True)\<rparr>)
        555 (Some 555) = ToNothing"
  using HandleIssueUserID_invalid [where sessions = demo_issue_flow and sender = 555
      and session = "\<lparr>step = 3, productID = 1, days = 30\<rparr>" and input = "''abc''"
      and env = "demo_env vpn_grants (\<lambda>site. False)" and st = demo_store and now = 5
      and notifyOK = True]
    demo_issue_flow_session abc_not_a_number
  by (simp add: OnText_def bot_init_def isAdmin_def IsUserInPromoMode_def
      IsUserInSupportMode_def GetAdminReplyTarget_def broadcast_init_def)

section \<open>The cooldown of the watchdog\<close>

lemma checkSystem_config: "config (fst (checkSystem w stats since now)) = config w"
  by (simp add: checkSystem_def Let_def split: option.splits)

lemma checkSystem_quiet:
  "checkSystem w stats since now = (w', None) \<Longrightarrow> w' = w"
  by (auto simp: checkSystem_def Let_def split: option.splits if_splits)

lemma checkSystem_alert:
  assumes "checkSystem w stats since now = (w', Some a)"
    and "lastAlertTime w \<le> since" and "since \<le> now"
  shows "lastAlertTime w' = now \<and> alert_time a = now \<and> config w' = config w
    \<and> AlertCooldown (config w) \<le> now - lastAlertTime w"
  using assms
  by (auto simp: checkSystem_def Let_def Sub_time_def split: option.splits if_splits)

lemma run_ticks_later:
  "clock_ok (lastAlertTime w) ts \<Longrightarrow> a \<in> set (snd (run_ticks w ts)) \<Longrightarrow>
     lastAlertTime w \<le> alert_time a \<and> AlertCooldown (config w) \<le> alert_time a - lastAlertTime w"
proof (induction ts arbitrary: w)
  case Nil
  then show ?case by simp
next
  case (Cons t ts)
  obtain w' r where step: "checkSystem w (tick_stats t) (tick_since t) (tick_now t) = (w', r)"
    by (cases "checkSystem w (tick_stats t) (tick_since t) (tick_now t)")
  from Cons.prems(1) have clock: "lastAlertTime w \<le> tick_since t" "tick_since t \<le> tick_now t"
    "clock_ok (tick_now t) ts"
    by simp_all
  show ?case
  proof (cases r)
    case None
    with step have same: "w' = w"
      by (simp add: checkSystem_quiet)
    have "clock_ok (lastAlertTime w) ts"
      using clock by (cases ts) auto
    moreover have "a \<in> set (snd (run_ticks w ts))"
      using Cons.prems(2) step None same by simp
    ultimately show ?thesis
      by (rule Cons.IH)
  next
    case (Some b)
    with step have al: "lastAlertTime w' = tick_now t" "alert_time b = tick_now t"
      "config w' = config w" "AlertCooldown (config w) \<le> tick_now t - lastAlertTime w"
      using checkSystem_alert [OF _ clock(1,2)] by simp_all
    from Cons.prems(2) step Some have "a = b \<or> a \<in> set (snd (run_ticks w' ts))"
      by (auto split: prod.splits)
    then show ?thesis
    proof
      assume "a = b"
      with al clock show ?thesis by simp
    next
      assume "a \<in> set (snd (run_ticks w' ts))"
      with clock(3) al(1) have "lastAlertTime w' \<le> alert_time a
          \<and> AlertCooldown (config w') \<le> alert_time a - lastAlertTime w'"
        by (intro Cons.IH) simp_all
      with al clock show ?thesis by simp
    qed
  qed
qed

lemma run_ticks_spaced:
  "clock_ok (lastAlertTime w) ts \<Longrightarrow>
     sorted_wrt (\<lambda>a b. AlertCooldown (config w) \<le> alert_time b - alert_time a)
       (snd (run_ticks w ts))"
proof (induction ts arbitrary: w)
  case Nil
  then show ?case by simp
next
  case (Cons t ts)
  obtain w' r where step: "checkSystem w (tick_stats t) (tick_since t) (tick_now t) = (w', r)"
    by (cases "checkSystem w (tick_stats t) (tick_since t) (tick_now t)")
  from Cons.prems have clock: "lastAlertTime w \<le> tick_since t" "tick_since t \<le> tick_now t"
    "clock_ok (tick_now t) ts"
    by simp_all
  show ?case
  proof (cases r)
    case None
    with step have same: "w' = w"
      by (simp add: checkSystem_quiet)
    have "clock_ok (lastAlertTime w) ts"
      using clock by (cases ts) auto
    then show ?thesis
      using Cons.IH [of w] step None same by simp
  next
    case (Some b)
    with step have al: "lastAlertTime w' = tick_now t" "alert_time b = tick_now t"
      "config w' = config w"
      using checkSystem_alert [OF _ clock(1,2)] by simp_all
    have ok': "clock_ok (lastAlertTime w') ts"
      using clock(3) al(1) by simp
    have rest: "sorted_wrt (\<lambda>a b. AlertCooldown (config w) \<le> alert_time b - alert_time a)
        (snd (run_ticks w' ts))"
      using Cons.IH [OF ok'] al(3) by simp
    have first: "\<forall>a \<in> set (snd (run_ticks w' ts)).
        AlertCooldown (config w) \<le> alert_time a - alert_time b"
      using run_ticks_later [OF ok'] al by simp
    show ?thesis
      using step Some rest first by (cases "run_ticks w' ts") simp
  qed
qed

text \<open>
  C6.  Over every sequence of ticks read from a clock that does not run backwards,
  whatever the loads and however frequent the ticks, any two alerts are at least
  \<open>AlertCooldown\<close> apart, so each cooldown window holds at most one; and a tick whose
  load breaches no threshold, or whose sampling fails, emits nothing and changes nothing.
\<close>

theorem watchdog_cooldown:
  "(clock_ok (lastAlertTime w) ts \<longrightarrow>
      sorted_wrt (\<lambda>a b. AlertCooldown (config w) \<le> alert_time b - alert_time a)
        (snd (run_ticks w ts)))
   \<and> (\<not> breach (config w) stats \<longrightarrow> checkSystem w (Some stats) since now = (w, None))
   \<and> checkSystem w None since now = (w, None)"
  by (simp add: run_ticks_spaced checkSystem_def breach_def Let_def)

lemma hot_ticks_clock:
  "clock_ok (lastAlertTime (NewWatchdog DefaultWatchdogConfig)) (hot_ticks (100 * Second) 5)"
  by code_simp

lemma hot_ticks_alerts:
  "map alert_time (snd (run_ticks (NewWatchdog DefaultWatchdogConfig) (hot_ticks (100 * Second) 5))) =
     [0, 300 * Second]"
  by code_simp

lemma calm_stats_quiet: "\<not> breach (config (NewWatchdog DefaultWatchdogConfig)) calm_stats"
  by code_simp

theorem watchdog_cooldown_witness:
  "clock_ok (lastAlertTime (NewWatchdog DefaultWatchdogConfig)) (hot_ticks (100 * Second) 5)
   \<and> map alert_time (snd (run_ticks (NewWatchdog DefaultWatchdogConfig) (hot_ticks (100 * Second) 5))) =
       [0, 300 * Second]
   \<and> sorted_wrt
       (\<lambda>a b. AlertCooldown (config (NewWatchdog DefaultWatchdogConfig))
                \<le> alert_time b - alert_time a)
       (snd (run_ticks (NewWatchdog DefaultWatchdogConfig) (hot_ticks (100 * Second) 5)))
   \<and> \<not> breach (config (NewWatchdog DefaultWatchdogConfig)) calm_stats
   \<and> checkSystem (NewWatchdog DefaultWatchdogConfig) (Some calm_stats) 5 5 =
       (NewWatchdog DefaultWatchdogConfig, None)"
  using watchdog_cooldown [of "NewWatchdog DefaultWatchdogConfig" "hot_ticks (100 * Second) 5" calm_stats 5 5]
    hot_ticks_clock hot_ticks_alerts calm_stats_quiet
  by simp

section \<open>Starting and stopping the watchdog\<close>

lemma returned_loop_idle:
  assumes "i < length (loops s)" and "phase (loops s ! i) = Returned"
    and "event_loop e = Some i"
  shows "watchdog_step s e = s"
  using assms by (cases e) (simp_all add: watchdog_step_def loop_step_def Let_def)

lemma loop_step_length: "length (loops (loop_step s j e)) = length (loops s)"
  by (cases e) (auto simp: loop_step_def Let_def split: prod.splits)

lemma loop_step_returned:
  assumes "i < length (loops s)" and "phase (loops s ! i) = Returned"
  shows "phase (loops (loop_step s j e) ! i) = Returned"
  using assms
  by (cases e; cases "i = j") (auto simp: loop_step_def Let_def split: prod.splits)

lemma returned_loop_stays:
  assumes "i < length (loops s)" and "phase (loops s ! i) = Returned"
  shows "i < length (loops (watchdog_step s e)) \<and> phase (loops (watchdog_step s e) ! i) = Returned"
proof (cases "panicked s")
  case True
  with assms show ?thesis by (simp add: watchdog_step_def)
next
  case False
  show ?thesis
  proof (cases e)
    case CallStart
    with False assms show ?thesis
      by (simp add: watchdog_step_def Start_def nth_append)
  next
    case CallStop
    with False assms show ?thesis
      by (simp add: watchdog_step_def Stop_def)
  qed (use False assms in \<open>simp_all add: watchdog_step_def loop_step_length loop_step_returned\<close>)
qed

text \<open>
  C5, as amended.  Starting a running watchdog and stopping a stopped one change
  nothing.  \<open>Stop\<close> on a running watchdog clears the flag, closes the stop channel and
  returns; it touches no loop and waits for none.  A loop at its \<open>select\<close> can take
  the stop case once the channel is closed and returns; a loop that has returned stays
  so, and no event of it samples, alerts or changes anything.
\<close>

theorem watchdog_start_stop:
  "(isRunning (wd s) \<longrightarrow> Start s = s)
   \<and> (\<not> isRunning (wd s) \<longrightarrow> Stop s = s)
   \<and> (isRunning (wd s) \<and> \<not> stopClosed s \<longrightarrow>
        Stop s = s\<lparr>wd := (wd s)\<lparr>isRunning := False\<rparr>, stopClosed := True,
                    observed := observed s @ [StopReturned]\<rparr>)
   \<and> (i < length (loops s) \<and> phase (loops s ! i) = AtSelect \<and> stopClosed s \<and> \<not> panicked s \<longrightarrow>
        phase (loops (watchdog_step s (SelectStop i)) ! i) = Returned
        \<and> observed (watchdog_step s (SelectStop i)) = observed s)
   \<and> (i < length (loops s) \<and> phase (loops s ! i) = Returned \<longrightarrow>
        i < length (loops (watchdog_step s e))
        \<and> phase (loops (watchdog_step s e) ! i) = Returned
        \<and> (event_loop e = Some i \<longrightarrow> watchdog_step s e = s))"
proof -
  have take_stop: "i < length (loops s) \<and> phase (loops s ! i) = AtSelect \<and> stopClosed s
      \<and> \<not> panicked s \<longrightarrow>
        phase (loops (watchdog_step s (SelectStop i)) ! i) = Returned
        \<and> observed (watchdog_step s (SelectStop i)) = observed s"
    by (simp add: watchdog_step_def loop_step_def Let_def)
  show ?thesis
    using take_stop returned_loop_stays [of i s e] returned_loop_idle [of i s e]
    by (simp add: Start_def Stop_def)
qed

lemma started_state:
  "demo_started =
     \<lparr>wd = \<lparr>config = DefaultWatchdogConfig, lastAlertTime = zeroTime, isRunning = True\<rparr>,
      stopClosed = False, loops = [\<lparr>phase = AtSelect, tickWaiting = False\<rparr>], observed = [],
      panicked = False\<rparr>"
  by (simp add: demo_started_def watchdog_system_def NewWatchdog_def watchdog_step_def Start_def)

lemma stopped_state:
  "demo_stopped =
     \<lparr>wd = \<lparr>config = DefaultWatchdogConfig, lastAlertTime = zeroTime, isRunning = False\<rparr>,
      stopClosed = True, loops = [\<lparr>phase = AtSelect, tickWaiting = True\<rparr>],
      observed = [StopReturned], panicked = False\<rparr>"
  by (simp add: demo_stopped_def watchdog_system_def NewWatchdog_def watchdog_step_def Start_def
      Stop_def loop_step_def)

lemma exited_state:
  "demo_exited =
     \<lparr>wd = \<lparr>config = DefaultWatchdogConfig, lastAlertTime = zeroTime, isRunning = False\<rparr>,
      stopClosed = True, loops = [\<lparr>phase = Returned, tickWaiting = True\<rparr>],
      observed = [StopReturned], panicked = False\<rparr>"
  by (simp add: demo_exited_def stop_then_exit_def watchdog_system_def NewWatchdog_def
      watchdog_step_def Start_def Stop_def loop_step_def)

theorem watchdog_start_stop_witness:
  "isRunning (wd demo_started) \<and> Start demo_started = demo_started
   \<and> \<not> isRunning (wd (watchdog_system DefaultWatchdogConfig))
   \<and> Stop (watchdog_system DefaultWatchdogConfig) = watchdog_system DefaultWatchdogConfig
   \<and> \<not> stopClosed demo_started
   \<and> observed (Stop demo_started) = [StopReturned]
   \<and> loops (Stop demo_started) = loops demo_started
   \<and> phase (loops demo_stopped ! 0) = AtSelect \<and> stopClosed demo_stopped
   \<and> phase (loops (watchdog_step demo_stopped (SelectStop 0)) ! 0) = Returned
   \<and> phase (loops demo_exited ! 0) = Returned
   \<and> watchdog_step demo_exited (SelectTick 0) = demo_exited"
proof -
  have facts: "isRunning (wd demo_started)" "\<not> stopClosed demo_started"
    "observed demo_started = []"
    "\<not> isRunning (wd (watchdog_system DefaultWatchdogConfig))"
    "0 < length (loops demo_stopped)" "phase (loops demo_stopped ! 0) = AtSelect"
    "stopClosed demo_stopped" "\<not> panicked demo_stopped"
    "0 < length (loops demo_exited)" "phase (loops demo_exited ! 0) = Returned"
    by (simp_all add: started_state stopped_state exited_state watchdog_system_def
        NewWatchdog_def)
  show ?thesis
    using watchdog_start_stop [of demo_started 0 "SelectTick 0"]
      watchdog_start_stop [of "watchdog_system DefaultWatchdogConfig" 0 "SelectTick 0"]
      watchdog_start_stop [of demo_stopped 0 "SelectTick 0"]
      watchdog_start_stop [of demo_exited 0 "SelectTick 0"]
      facts
    by simp
qed

lemma alert_after_stop:
  "observed (watchdog_run (watchdog_system DefaultWatchdogConfig) stop_during_check) =
     [Sampled 0, StopReturned, AlertSent 0 100]"
  by code_simp

lemma sample_after_stop:
  "observed (watchdog_run (watchdog_system DefaultWatchdogConfig) stop_before_select) =
     [StopReturned, Sampled 0]"
  by code_simp

text \<open>
  The claim as stated fails: \<open>Stop\<close> returns while the loop is inside \<open>checkSystem\<close>
  and the alert is sent afterwards; and \<open>Stop\<close> returns while a tick waits, and the
  \<open>select\<close> takes the tick and samples afterwards.
\<close>

theorem watchdog_start_stop_counterexample:
  "observed (watchdog_run (watchdog_system DefaultWatchdogConfig) stop_during_check) =
     [Sampled 0, StopReturned, AlertSent 0 100]
   \<and> observed (watchdog_run (watchdog_system DefaultWatchdogConfig) stop_before_select) =
     [StopReturned, Sampled 0]"
  using alert_after_stop sample_after_stop by simp

end
